theory Spec2Isabelle
  imports Main "HOL-Library.Word"
begin

unbundle bit_operations_syntax

section \<open>The MQTT client of simba: the file \<open>src/inet/mqtt_client.c\<close>\<close>

text \<open>
  A shallow embedding of the MQTT 3.1.1 client engine: the wire codec, the request
  handlers, the response handlers and one iteration of the event loop.

  Conventions of the model.
  \<^item> A byte (\<open>uint8_t\<close>, \<open>char\<close>) is an \<open>8 word\<close>. A C \<open>int\<close> is an \<open>int\<close>; the
    only \<open>int\<close> values the code computes are result codes, packet types, flags and
    the connect payload length, all far below 2^31 for strings the codec accepts.
  \<^item> A \<open>size_t\<close> is a \<open>nat\<close>; where the code computes a \<open>size_t\<close> the wrap-around
    is written out with \<open>size_t_wrap\<close>.
  \<^item> A handler returns \<open>Some (res, self')\<close>: the \<open>int\<close> it returns and the client
    as it leaves it. \<open>None\<close> stands for behaviour that C leaves undefined (a store
    past the end of a local array, a read through a null pointer or past the end of
    the caller's buffer) and for a control queue whose next item is not what the
    reader expects.
  \<^item> Logging calls (\<open>log_object_print\<close>, \<open>std_printf\<close>) have no effect on the
    client and are left out, and with them the client's name and log object.
  \<^item> The two callbacks are the application's code. The model keeps the arguments of
    every call; on-publish may read from the transport input, as its contract says,
    and neither callback writes to the client.
  \<^item> The event loop never returns; the model is one iteration of it, given the
    channel that the poll found ready.
\<close>

subsection \<open>Constants\<close>

type_synonym u8 = "8 word"

abbreviation (input) MQTT_CONNECT :: int where "MQTT_CONNECT \<equiv> 1"
abbreviation (input) MQTT_CONNACK :: int where "MQTT_CONNACK \<equiv> 2"
abbreviation (input) MQTT_PUBLISH :: int where "MQTT_PUBLISH \<equiv> 3"
abbreviation (input) MQTT_PUBACK :: int where "MQTT_PUBACK \<equiv> 4"
abbreviation (input) MQTT_PUBREC :: int where "MQTT_PUBREC \<equiv> 5"
abbreviation (input) MQTT_PUBREL :: int where "MQTT_PUBREL \<equiv> 6"
abbreviation (input) MQTT_PUBCOMP :: int where "MQTT_PUBCOMP \<equiv> 7"
abbreviation (input) MQTT_SUBSCRIBE :: int where "MQTT_SUBSCRIBE \<equiv> 8"
abbreviation (input) MQTT_SUBACK :: int where "MQTT_SUBACK \<equiv> 9"
abbreviation (input) MQTT_UNSUBSCRIBE :: int where "MQTT_UNSUBSCRIBE \<equiv> 10"
abbreviation (input) MQTT_UNSUBACK :: int where "MQTT_UNSUBACK \<equiv> 11"
abbreviation (input) MQTT_PINGREQ :: int where "MQTT_PINGREQ \<equiv> 12"
abbreviation (input) MQTT_PINGRESP :: int where "MQTT_PINGRESP \<equiv> 13"
abbreviation (input) MQTT_DISCONNECT :: int where "MQTT_DISCONNECT \<equiv> 14"

text \<open>Connection flags.\<close>

abbreviation (input) CLEAN_SESSION :: u8 where "CLEAN_SESSION \<equiv> 0x2"
abbreviation (input) WILL_FLAG :: u8 where "WILL_FLAG \<equiv> 0x4"
abbreviation (input) WILL_QOS_1 :: u8 where "WILL_QOS_1 \<equiv> 0x8"
abbreviation (input) WILL_QOS_2 :: u8 where "WILL_QOS_2 \<equiv> 0x10"
abbreviation (input) PASSWORD_FLAG :: u8 where "PASSWORD_FLAG \<equiv> 0x40"
abbreviation (input) USER_NAME_FLAG :: u8 where "USER_NAME_FLAG \<equiv> 0x80"

abbreviation (input) CONNECTION_ACCEPTED :: u8 where "CONNECTION_ACCEPTED \<equiv> 0"

abbreviation (input) CONTROL_CONNECT :: int where "CONTROL_CONNECT \<equiv> 0"
abbreviation (input) CONTROL_DISCONNECT :: int where "CONTROL_DISCONNECT \<equiv> 1"
abbreviation (input) CONTROL_PING :: int where "CONTROL_PING \<equiv> 2"
abbreviation (input) CONTROL_PUBLISH :: int where "CONTROL_PUBLISH \<equiv> 3"
abbreviation (input) CONTROL_SUBSCRIBE :: int where "CONTROL_SUBSCRIBE \<equiv> 4"
abbreviation (input) CONTROL_UNSUBSCRIBE :: int where "CONTROL_UNSUBSCRIBE \<equiv> 5"
abbreviation (input) CONTROL_NONE :: int where "CONTROL_NONE \<equiv> 6"

abbreviation (input) KEEP_ALIVE :: nat where "KEEP_ALIVE \<equiv> 300"

text \<open>
  Modelled from the spec: the error numbers \<open>EIO\<close>, \<open>EINVAL\<close>, \<open>EPROTO\<close> and
  \<open>EMSGSIZE\<close> come from an errno header that is not among the sources; the spec
  names them only (I/O error, invalid argument, protocol error, message size). They
  get their POSIX values here. The theorems use no more than that they are positive,
  pairwise distinct and different from 1.
\<close>

abbreviation (input) EIO :: int where "EIO \<equiv> 5"
abbreviation (input) EINVAL :: int where "EINVAL \<equiv> 22"
abbreviation (input) EPROTO :: int where "EPROTO \<equiv> 71"
abbreviation (input) EMSGSIZE :: int where "EMSGSIZE \<equiv> 90"

text \<open>The macros \<open>MSB(b) = (b >> 8) & 0xff\<close> and \<open>LSB(b) = b & 0xff\<close>, stored in a byte.\<close>

definition MSB :: "nat \<Rightarrow> u8" where
  "MSB b = word_of_nat (drop_bit 8 b AND 0xff)"

definition LSB :: "nat \<Rightarrow> u8" where
  "LSB b = word_of_nat (b AND 0xff)"

text \<open>
  The width of \<open>size_t\<close> is fixed by the target, outside the sources; the model takes
  32 bits. It matters only where a subtraction goes below zero or a sum of caller
  supplied sizes passes 2^32.
\<close>

definition size_t_wrap :: "int \<Rightarrow> nat" where
  "size_t_wrap x = nat (x mod 2 ^ 32)"

subsection \<open>Channels\<close>

text \<open>
  The transport output: the bytes written so far, and how many more bytes the channel
  takes before a write comes back short. \<open>chan_write ch buf n\<close> writes the first \<open>n\<close>
  bytes of \<open>buf\<close> and returns the count written, as the code tests it against \<open>n\<close>.
\<close>

record out_chan =
  sent :: "u8 list"
  room :: nat

definition chan_write :: "out_chan \<Rightarrow> u8 list \<Rightarrow> nat \<Rightarrow> int \<times> out_chan" where
  "chan_write ch buf n =
     (let k = min n (room ch)
      in (int k, ch\<lparr>sent := sent ch @ take k buf, room := room ch - k\<rparr>))"

text \<open>
  The transport input is the list of bytes the broker has sent and the client has not
  read yet. \<open>chan_read inp n\<close> returns the bytes read and the rest; fewer than \<open>n\<close>
  bytes read is the short read the code treats as an I/O error.
\<close>

definition chan_read :: "u8 list \<Rightarrow> nat \<Rightarrow> u8 list \<times> u8 list" where
  "chan_read inp n = (take n inp, drop n inp)"

text \<open>
  A buffer of the caller, reached through a pointer: \<open>None\<close> is the null pointer.
  \<open>deref p n\<close> are the \<open>n\<close> bytes a \<open>chan_write\<close> fetches through \<open>p\<close>.
\<close>

definition deref :: "u8 list option \<Rightarrow> nat \<Rightarrow> u8 list option" where
  "deref p n =
     (case p of
        None \<Rightarrow> if n = 0 then Some [] else None
      | Some b \<Rightarrow> if n \<le> length b then Some (take n b) else None)"

subsection \<open>Data model\<close>

text \<open>
  Modelled from the spec: the declarations of \<open>struct mqtt_string_t\<close>,
  \<open>struct mqtt_conn_options_t\<close>, \<open>struct mqtt_application_message_t\<close>,
  \<open>struct mqtt_client_t\<close> and of the two enumerations are in a header that is not
  among the sources. The records below hold the fields \<open>mqtt_client.c\<close> reads and
  writes, with the meaning the spec's data model gives them.
\<close>

datatype mqtt_qos_t = mqtt_qos_0_t | mqtt_qos_1_t | mqtt_qos_2_t

text \<open>The value of a QoS enumerator, as the code uses it in arithmetic.\<close>

fun qos_int :: "mqtt_qos_t \<Rightarrow> int" where
  "qos_int mqtt_qos_0_t = 0"
| "qos_int mqtt_qos_1_t = 1"
| "qos_int mqtt_qos_2_t = 2"

datatype mqtt_client_state_t =
  mqtt_client_state_disconnected_t | mqtt_client_state_connected_t

text \<open>An MQTT string: a pointer to the caller's bytes and a size.\<close>

record mqtt_string_t =
  buf_p :: "u8 list option"
  size_s :: nat

text \<open>The connection options; the fields of the nested \<open>will\<close> carry the prefix.\<close>

record mqtt_conn_options_t =
  client_id :: mqtt_string_t
  will_topic :: mqtt_string_t
  will_payload :: mqtt_string_t
  will_qos :: mqtt_qos_t
  user_name :: mqtt_string_t
  password :: mqtt_string_t

record mqtt_application_message_t =
  topic :: mqtt_string_t
  payload :: mqtt_string_t
  qos :: mqtt_qos_t

text \<open>
  What the application tasks put on the inbound control queue: the one-byte verb, and
  for some verbs the pointer to the caller's options (possibly null) or message.
\<close>

datatype control_item =
  Verb int
| OptionsPtr "mqtt_conn_options_t option"
| MessagePtr mqtt_application_message_t

text \<open>
  The client. \<open>on_publish\<close> is the application's callback: given the null-terminated
  topic, the transport input positioned at the payload and the payload size, it
  returns its result and the transport input as it leaves it. The two lists of calls
  record what the callbacks were invoked with; \<open>on_error\<close> returns a value the loop
  ignores, so its calls are all the model keeps of it.
\<close>

record mqtt_client_t =
  state :: mqtt_client_state_t
  message_type :: int
  transport_out :: out_chan
  transport_in :: "u8 list"
  control_in :: "control_item list"
  control_out :: "int list"
  on_publish :: "u8 list \<Rightarrow> u8 list \<Rightarrow> nat \<Rightarrow> int \<times> u8 list"
  on_publish_calls :: "(u8 list \<times> nat) list"
  on_error_calls :: "int list"

text \<open>\<open>chan_write(self_p->transport.out_p, buf, n)\<close>: the count and the client after it.\<close>

definition transport_write :: "mqtt_client_t \<Rightarrow> u8 list \<Rightarrow> nat \<Rightarrow> int \<times> mqtt_client_t" where
  "transport_write self buf n =
     (case chan_write (transport_out self) buf n of
        (k, out) \<Rightarrow> (k, self\<lparr>transport_out := out\<rparr>))"

text \<open>\<open>chan_read(self_p->transport.in_p, buf, n)\<close>: the bytes read and the client after it.\<close>

definition transport_read :: "mqtt_client_t \<Rightarrow> nat \<Rightarrow> u8 list \<times> mqtt_client_t" where
  "transport_read self n =
     (case chan_read (transport_in self) n of
        (bytes, rest) \<Rightarrow> (bytes, self\<lparr>transport_in := rest\<rparr>))"

subsection \<open>Sequencing\<close>

text \<open>
  \<open>and_then m f\<close> is the code's \<open>res = m; if (res != 0) { return (res); } f\<close>.
\<close>

definition and_then ::
  "(int \<times> mqtt_client_t) option \<Rightarrow> (mqtt_client_t \<Rightarrow> (int \<times> mqtt_client_t) option)
    \<Rightarrow> (int \<times> mqtt_client_t) option" where
  "and_then m f =
     (case m of
        None \<Rightarrow> None
      | Some (res, self1) \<Rightarrow> if res \<noteq> 0 then Some (res, self1) else f self1)"

text \<open>
  \<open>write_or_EIO self buf n\<close> is
  \<open>if (chan_write(self_p->transport.out_p, buf, n) != n) { return (-EIO); }\<close>
  for a local array \<open>buf\<close>; \<open>write_mem_or_EIO\<close> is the same for a buffer of the
  caller's.
\<close>

definition write_or_EIO :: "mqtt_client_t \<Rightarrow> u8 list \<Rightarrow> nat \<Rightarrow> (int \<times> mqtt_client_t) option" where
  "write_or_EIO self buf n =
     (case transport_write self buf n of
        (k, self1) \<Rightarrow> if k \<noteq> int n then Some (- EIO, self1) else Some (0, self1))"

definition write_mem_or_EIO ::
  "mqtt_client_t \<Rightarrow> u8 list option \<Rightarrow> nat \<Rightarrow> (int \<times> mqtt_client_t) option" where
  "write_mem_or_EIO self p n =
     (case deref p n of
        None \<Rightarrow> None
      | Some bytes \<Rightarrow> write_or_EIO self bytes n)"

subsection \<open>Wire codec\<close>

text \<open>
  \<open>write_mqtt_string\<close>: the two-byte length, then the bytes.
\<close>

definition write_mqtt_string :: "mqtt_client_t \<Rightarrow> mqtt_string_t \<Rightarrow> (int \<times> mqtt_client_t) option" where
  "write_mqtt_string self mqtt_string =
     (if size_s mqtt_string = 0 \<or> buf_p mqtt_string = None then Some (- EINVAL, self)
      else if size_s mqtt_string > 0xffff then Some (- EINVAL, self)
      else
        and_then (write_or_EIO self [MSB (size_s mqtt_string), LSB (size_s mqtt_string)] 2) (\<lambda>self1.
        write_mem_or_EIO self1 (buf_p mqtt_string) (size_s mqtt_string)))"

text \<open>
  The do-while loop of \<open>write_fixed_header\<close> that encodes the remaining length into
  \<open>buf\<close> from position \<open>pos\<close> on. \<open>buf\<close> has five bytes; a store at \<open>pos \<ge> 5\<close>
  is outside the array.
\<close>

function write_size_loop :: "nat \<Rightarrow> u8 list \<Rightarrow> nat \<Rightarrow> (u8 list \<times> nat) option" where
  "write_size_loop sz buf pos =
     (if pos \<ge> length buf then None
      else if sz div 128 > 0
        then write_size_loop (sz div 128) (buf[pos := word_of_nat (sz mod 128) OR 0x80]) (pos + 1)
        else Some (buf[pos := word_of_nat (sz mod 128)], pos + 1))"
  by pat_completeness auto
termination
  by (relation "measure (\<lambda>(sz, buf, pos). sz)") auto

declare write_size_loop.simps [simp del]

definition write_fixed_header :: "mqtt_client_t \<Rightarrow> int \<Rightarrow> int \<Rightarrow> nat \<Rightarrow> (int \<times> mqtt_client_t) option" where
  "write_fixed_header self type flags sz =
     (case write_size_loop sz [word_of_int (push_bit 4 type OR flags), 0, 0, 0, 0] 1 of
        None \<Rightarrow> None
      | Some (buf, pos) \<Rightarrow> write_or_EIO self buf pos)"

text \<open>
  The do-while loop of \<open>read_fixed_header\<close> that decodes the remaining length: the
  result, the size so far and the client. The multiplier is a \<open>long\<close>; it never
  passes 128^4.
\<close>

fun read_size_loop :: "u8 list \<Rightarrow> nat \<Rightarrow> nat \<Rightarrow> int \<times> nat \<times> u8 list" where
  "read_size_loop [] sz multiplier = (- EIO, sz, [])"
| "read_size_loop (byte # inp) sz multiplier =
     (if multiplier * 128 > 128 * 128 * 128
        then (- 1, sz + unat (byte AND 0x7f) * multiplier, inp)
      else if byte AND 0x80 \<noteq> 0
        then read_size_loop inp (sz + unat (byte AND 0x7f) * multiplier) (multiplier * 128)
      else (0, sz + unat (byte AND 0x7f) * multiplier, inp))"

text \<open>\<open>read_fixed_header\<close> returns its result, then type, flags and size, then the client.\<close>

definition read_fixed_header :: "mqtt_client_t \<Rightarrow> int \<times> (int \<times> int \<times> nat) \<times> mqtt_client_t" where
  "read_fixed_header self =
     (case transport_in self of
        [] \<Rightarrow> (- EIO, (0, 0, 0), self)
      | byte # inp \<Rightarrow>
          (case read_size_loop inp 0 1 of
             (res, sz, rest) \<Rightarrow>
               (res, (uint (drop_bit 4 byte AND 0xf), uint (byte AND 0xf), sz),
                self\<lparr>transport_in := rest\<rparr>)))"

subsection \<open>Request handlers\<close>

text \<open>
  \<open>memset(options_p, 0, sizeof(*options_p))\<close>, and the client identifier the code
  sets when the caller gave none: \<open>FSTR("simba_mqtt")\<close> with its \<open>strlen\<close>.
\<close>

definition null_string :: mqtt_string_t where
  "null_string = \<lparr>buf_p = None, size_s = 0\<rparr>"

definition default_options :: mqtt_conn_options_t where
  "default_options =
     \<lparr>client_id = null_string, will_topic = null_string, will_payload = null_string,
      will_qos = mqtt_qos_0_t, user_name = null_string, password = null_string\<rparr>"

definition default_client_id :: mqtt_string_t where
  "default_client_id =
     \<lparr>buf_p = Some (map (\<lambda>c. word_of_nat (of_char c)) ''simba_mqtt''),
      size_s = length ''simba_mqtt''\<rparr>"

text \<open>
  The block of \<open>handle_control_connect\<close> that computes the connect flags and the
  payload length, once the client identifier is set: each payload string counts its
  size and the two bytes of its length.
\<close>

definition connect_flags :: "mqtt_conn_options_t \<Rightarrow> u8" where
  "connect_flags options =
     (let flags = CLEAN_SESSION;
          flags = (if size_s (will_topic options) > 0
                   then (if will_qos options = mqtt_qos_1_t then (flags OR WILL_FLAG) OR WILL_QOS_1
                         else if will_qos options = mqtt_qos_2_t then (flags OR WILL_FLAG) OR WILL_QOS_2
                         else flags OR WILL_FLAG)
                   else flags);
          flags = (if size_s (user_name options) > 0 then flags OR USER_NAME_FLAG else flags)
      in (if size_s (password options) > 0 then flags OR PASSWORD_FLAG else flags))"

definition connect_payload_length :: "mqtt_conn_options_t \<Rightarrow> nat" where
  "connect_payload_length options =
     (let payload_length = size_s (client_id options) + 2;
          payload_length = (if size_s (will_topic options) > 0
                            then payload_length + (size_s (will_topic options) + 2)
                                   + (size_s (will_payload options) + 2)
                            else payload_length);
          payload_length = (if size_s (user_name options) > 0
                            then payload_length + (size_s (user_name options) + 2)
                            else payload_length)
      in (if size_s (password options) > 0
          then payload_length + (size_s (password options) + 2)
          else payload_length))"

text \<open>
  \<open>handle_control_connect\<close> from the check of the will on, for the options in use.
  The code stores the default client identifier into the caller's options; the model
  keeps the changed options for the rest of the handler only.
\<close>

definition connect_options :: "mqtt_client_t \<Rightarrow> mqtt_conn_options_t \<Rightarrow> (int \<times> mqtt_client_t) option" where
  "connect_options self options0 =
     (if (size_s (will_topic options0) = 0) \<noteq> (size_s (will_payload options0) = 0)
      then Some (- EINVAL, self)
      else
        (let options = (if size_s (client_id options0) = 0
                        then options0\<lparr>client_id := default_client_id\<rparr> else options0);
             flags = connect_flags options;
             payload_length = connect_payload_length options
         in
           and_then (write_fixed_header self MQTT_CONNECT 0
                       (size_t_wrap (12 + int payload_length))) (\<lambda>self1.
           and_then (write_or_EIO self1
                       [0, 4, 0x4D, 0x51, 0x54, 0x54, 4, flags,
                        MSB KEEP_ALIVE, LSB KEEP_ALIVE,
                        MSB payload_length, LSB payload_length] 12) (\<lambda>self2.
           and_then (write_mqtt_string self2 (client_id options)) (\<lambda>self3.
           and_then (if size_s (will_topic options) > 0
                     then and_then (write_mqtt_string self3 (will_topic options)) (\<lambda>self4.
                          write_mqtt_string self4 (will_payload options))
                     else Some (0, self3)) (\<lambda>self5.
           and_then (if size_s (user_name options) > 0
                     then write_mqtt_string self5 (user_name options)
                     else Some (0, self5)) (\<lambda>self6.
           and_then (if size_s (password options) > 0
                     then write_mqtt_string self6 (password options)
                     else Some (0, self6)) (\<lambda>self7.
           Some (0, self7\<lparr>message_type := CONTROL_CONNECT\<rparr>)))))))))"

definition handle_control_connect :: "mqtt_client_t \<Rightarrow> (int \<times> mqtt_client_t) option" where
  "handle_control_connect self =
     (case control_in self of
        [] \<Rightarrow> Some (- 1, self)
      | OptionsPtr options_p # q \<Rightarrow>
          connect_options (self\<lparr>control_in := q\<rparr>)
            (case options_p of None \<Rightarrow> default_options | Some options \<Rightarrow> options)
      | _ # q \<Rightarrow> None)"

definition handle_control_disconnect :: "mqtt_client_t \<Rightarrow> (int \<times> mqtt_client_t) option" where
  "handle_control_disconnect self =
     (case write_fixed_header self MQTT_DISCONNECT 0 0 of
        None \<Rightarrow> None
      | Some (res, self1) \<Rightarrow>
          if res \<noteq> 0 then Some (- 1, self1)
          else Some (0, self1\<lparr>state := mqtt_client_state_disconnected_t\<rparr>))"

definition handle_control_ping :: "mqtt_client_t \<Rightarrow> (int \<times> mqtt_client_t) option" where
  "handle_control_ping self =
     and_then (write_fixed_header self MQTT_PINGREQ 0 0) (\<lambda>self1.
     Some (0, self1\<lparr>message_type := CONTROL_PING\<rparr>))"

text \<open>\<open>handle_control_publish\<close> once the message pointer is read from the queue.\<close>

definition publish_message ::
  "mqtt_client_t \<Rightarrow> mqtt_application_message_t \<Rightarrow> (int \<times> mqtt_client_t) option" where
  "publish_message self message =
     (let sz = size_t_wrap (int (size_s (topic message)) + int (size_s (payload message)) + 2);
          sz = (if qos_int (qos message) > 0 then size_t_wrap (int sz + 2) else sz)
      in
        and_then (write_fixed_header self MQTT_PUBLISH (push_bit 1 (qos_int (qos message))) sz)
          (\<lambda>self1.
        and_then (write_or_EIO self1 [0, word_of_nat (size_s (topic message))] 2) (\<lambda>self2.
        and_then (write_mem_or_EIO self2 (buf_p (topic message)) (size_s (topic message)))
          (\<lambda>self3.
        and_then (if qos_int (qos message) > 0 then write_or_EIO self3 [0, 1] 2
                  else Some (0, self3)) (\<lambda>self4.
        and_then (if size_s (payload message) > 0
                  then write_mem_or_EIO self4 (buf_p (payload message)) (size_s (payload message))
                  else Some (0, self4)) (\<lambda>self5.
        Some (0, self5\<lparr>message_type := CONTROL_PUBLISH\<rparr>)))))))"

definition handle_control_publish :: "mqtt_client_t \<Rightarrow> (int \<times> mqtt_client_t) option" where
  "handle_control_publish self =
     (case control_in self of
        [] \<Rightarrow> Some (- 1, self)
      | MessagePtr message # q \<Rightarrow> publish_message (self\<lparr>control_in := q\<rparr>) message
      | _ # q \<Rightarrow> None)"

definition subscribe_message ::
  "mqtt_client_t \<Rightarrow> mqtt_application_message_t \<Rightarrow> (int \<times> mqtt_client_t) option" where
  "subscribe_message self message =
     and_then (write_fixed_header self MQTT_SUBSCRIBE 2
                 (size_t_wrap (int (size_s (topic message)) + 5))) (\<lambda>self1.
     and_then (write_or_EIO self1 [0, 1] 2) (\<lambda>self2.
     and_then (write_or_EIO self2
                 [word_of_nat (drop_bit 8 (size_s (topic message)) AND 0xff),
                  word_of_nat (size_s (topic message) AND 0xff)] 2) (\<lambda>self3.
     and_then (write_mem_or_EIO self3 (buf_p (topic message)) (size_s (topic message)))
       (\<lambda>self4.
     and_then (write_or_EIO self4 [word_of_int (qos_int (qos message))] 1) (\<lambda>self5.
     Some (0, self5\<lparr>message_type := CONTROL_SUBSCRIBE\<rparr>))))))"

definition handle_control_subscribe :: "mqtt_client_t \<Rightarrow> (int \<times> mqtt_client_t) option" where
  "handle_control_subscribe self =
     (case control_in self of
        [] \<Rightarrow> Some (- 1, self)
      | MessagePtr message # q \<Rightarrow> subscribe_message (self\<lparr>control_in := q\<rparr>) message
      | _ # q \<Rightarrow> None)"

definition unsubscribe_message ::
  "mqtt_client_t \<Rightarrow> mqtt_application_message_t \<Rightarrow> (int \<times> mqtt_client_t) option" where
  "unsubscribe_message self message =
     and_then (write_fixed_header self MQTT_UNSUBSCRIBE 2
                 (size_t_wrap (int (size_s (topic message)) + 4))) (\<lambda>self1.
     and_then (write_or_EIO self1 [0, 2] 2) (\<lambda>self2.
     and_then (write_or_EIO self2
                 [word_of_nat (drop_bit 8 (size_s (topic message)) AND 0xff),
                  word_of_nat (size_s (topic message) AND 0xff)] 2) (\<lambda>self3.
     and_then (write_mem_or_EIO self3 (buf_p (topic message)) (size_s (topic message)))
       (\<lambda>self4.
     Some (0, self4\<lparr>message_type := CONTROL_UNSUBSCRIBE\<rparr>)))))"

definition handle_control_unsubscribe :: "mqtt_client_t \<Rightarrow> (int \<times> mqtt_client_t) option" where
  "handle_control_unsubscribe self =
     (case control_in self of
        [] \<Rightarrow> Some (- 1, self)
      | MessagePtr message # q \<Rightarrow> unsubscribe_message (self\<lparr>control_in := q\<rparr>) message
      | _ # q \<Rightarrow> None)"

subsection \<open>Response handlers\<close>

definition handle_response_connack :: "mqtt_client_t \<Rightarrow> nat \<Rightarrow> int \<times> mqtt_client_t" where
  "handle_response_connack self sz =
     (if message_type self \<noteq> CONTROL_CONNECT then (- 1, self)
      else
        (let self1 = self\<lparr>message_type := CONTROL_NONE\<rparr>
         in if sz \<noteq> 2 then (- EMSGSIZE, self1)
            else
              (case transport_read self1 sz of
                 (buf, self2) \<Rightarrow>
                   if length buf \<noteq> sz then (- EIO, self2)
                   else if buf ! 0 \<noteq> 0 then (- 1, self2)
                   else if buf ! 1 \<noteq> CONNECTION_ACCEPTED then (- 1, self2)
                   else (0, self2\<lparr>state := mqtt_client_state_connected_t\<rparr>))))"

definition handle_response_ping :: "mqtt_client_t \<Rightarrow> nat \<Rightarrow> int \<times> mqtt_client_t" where
  "handle_response_ping self sz =
     (if message_type self \<noteq> CONTROL_PING then (- 1, self)
      else
        (let self1 = self\<lparr>message_type := CONTROL_NONE\<rparr>
         in if sz \<noteq> 0 then (- EMSGSIZE, self1) else (0, self1)))"

definition handle_response_puback :: "mqtt_client_t \<Rightarrow> nat \<Rightarrow> int \<times> mqtt_client_t" where
  "handle_response_puback self sz =
     (if message_type self \<noteq> CONTROL_PUBLISH then (- 1, self)
      else
        (let self1 = self\<lparr>message_type := CONTROL_NONE\<rparr>
         in if sz \<noteq> 2 then (- EMSGSIZE, self1)
            else
              (case transport_read self1 sz of
                 (buf, self2) \<Rightarrow>
                   if length buf \<noteq> sz then (- EIO, self2)
                   else if buf ! 0 \<noteq> 0 then (- 1, self2)
                   else if buf ! 1 \<noteq> 1 then (- 1, self2)
                   else (0, self2))))"

definition handle_response_suback :: "mqtt_client_t \<Rightarrow> nat \<Rightarrow> int \<times> mqtt_client_t" where
  "handle_response_suback self sz =
     (if message_type self \<noteq> CONTROL_SUBSCRIBE then (- 1, self)
      else
        (let self1 = self\<lparr>message_type := CONTROL_NONE\<rparr>
         in if sz \<noteq> 3 then (- EMSGSIZE, self1)
            else
              (case transport_read self1 sz of
                 (buf, self2) \<Rightarrow>
                   if length buf \<noteq> sz then (- EIO, self2)
                   else if buf ! 0 \<noteq> 0 then (- 1, self2)
                   else if buf ! 1 \<noteq> 1 then (- 1, self2)
                   else if buf ! 2 > 2 then (- 1, self2)
                   else (0, self2))))"

definition handle_response_unsuback :: "mqtt_client_t \<Rightarrow> nat \<Rightarrow> int \<times> mqtt_client_t" where
  "handle_response_unsuback self sz =
     (if message_type self \<noteq> CONTROL_UNSUBSCRIBE then (- 1, self)
      else
        (let self1 = self\<lparr>message_type := CONTROL_NONE\<rparr>
         in if sz \<noteq> 2 then (- EMSGSIZE, self1)
            else
              (case transport_read self1 sz of
                 (buf, self2) \<Rightarrow>
                   if length buf \<noteq> sz then (- EIO, self2)
                   else if buf ! 0 \<noteq> 0 then (- 1, self2)
                   else if buf ! 1 \<noteq> 2 then (- 1, self2)
                   else (0, self2))))"

subsection \<open>Inbound publish\<close>

text \<open>
  The call \<open>self_p->on_publish(self_p, topic, self_p->transport.in_p, payload_size)\<close>
  that ends \<open>handle_publish\<close>, and the result the handler makes of the callback's.
\<close>

definition call_on_publish :: "mqtt_client_t \<Rightarrow> u8 list \<Rightarrow> nat \<Rightarrow> int \<times> mqtt_client_t" where
  "call_on_publish self topic_buf payload_size =
     (case on_publish self topic_buf (transport_in self) payload_size of
        (res, rest) \<Rightarrow>
          (if res \<noteq> 0 then - 1 else 0,
           self\<lparr>transport_in := rest,
                on_publish_calls := on_publish_calls self @ [(topic_buf, payload_size)]\<rparr>))"

text \<open>
  \<open>handle_publish\<close>. The topic is read into \<open>char topic[128]\<close> and terminated with a
  zero byte; the callback gets the bytes up to and including that terminator.
\<close>

definition handle_publish :: "mqtt_client_t \<Rightarrow> nat \<Rightarrow> int \<Rightarrow> (int \<times> mqtt_client_t) option" where
  "handle_publish self sz flags =
     (case transport_read self 2 of
        (buf, self1) \<Rightarrow>
          if length buf \<noteq> 2 then Some (- EIO, self1)
          else
            (let topic_size = push_bit 8 (unat (buf ! 0)) OR unat (buf ! 1)
             in if topic_size > 128 - 1 then Some (- EMSGSIZE, self1)
                else
                  (case transport_read self1 topic_size of
                     (topic_bytes, self2) \<Rightarrow>
                       if length topic_bytes \<noteq> topic_size then Some (- EIO, self2)
                       else
                         (let topic_buf = topic_bytes @ [0];
                              qos_bits = drop_bit 1 flags AND 0x3
                          in if qos_bits = 0
                             then Some (call_on_publish self2 topic_buf
                                          (size_t_wrap (int sz - int topic_size - 2)))
                             else
                               (case transport_read self2 2 of
                                  (ident, self3) \<Rightarrow>
                                    if length ident \<noteq> 2 then Some (- EIO, self3)
                                    else
                                      and_then
                                        (if qos_bits = 1 then write_fixed_header self3 MQTT_PUBACK 0 2
                                         else if qos_bits = 2
                                           then write_fixed_header self3 MQTT_PUBREC 0 2
                                         else Some (- EPROTO, self3)) (\<lambda>self4.
                                      and_then (write_or_EIO self4 ident 2) (\<lambda>self5.
                                      Some (call_on_publish self5 topic_buf
                                              (size_t_wrap (int sz - int topic_size - 4))))))))))"

subsection \<open>Event loop\<close>

text \<open>\<open>chan_write(&self_p->control.out, &res, sizeof(res))\<close>.\<close>

definition post_result :: "int \<times> mqtt_client_t \<Rightarrow> int \<times> mqtt_client_t" where
  "post_result r =
     (case r of (res, self1) \<Rightarrow> (res, self1\<lparr>control_out := control_out self1 @ [res]\<rparr>))"

text \<open>
  \<open>read_control_message\<close>: the verb is read from the queue and dispatched on the
  state; \<open>res\<close> starts as -1 and takes the handler's result. The function ends with
  \<open>return (0)\<close>, whatever \<open>res\<close> is.
\<close>

definition read_control_message :: "mqtt_client_t \<Rightarrow> (int \<times> mqtt_client_t) option" where
  "read_control_message self =
     (case control_in self of
        [] \<Rightarrow> Some (- 1, self)
      | Verb type # q \<Rightarrow>
          (let self1 = self\<lparr>control_in := q\<rparr>
           in
             (case
                (case state self1 of
                   mqtt_client_state_disconnected_t \<Rightarrow>
                     if type = CONTROL_CONNECT then handle_control_connect self1
                     else Some (- 1, self1)
                 | mqtt_client_state_connected_t \<Rightarrow>
                     if type = CONTROL_DISCONNECT
                       then map_option post_result (handle_control_disconnect self1)
                     else if type = CONTROL_PING then handle_control_ping self1
                     else if type = CONTROL_PUBLISH then handle_control_publish self1
                     else if type = CONTROL_SUBSCRIBE then handle_control_subscribe self1
                     else if type = CONTROL_UNSUBSCRIBE then handle_control_unsubscribe self1
                     else Some (- 1, self1))
              of
                None \<Rightarrow> None
              | Some (res, self2) \<Rightarrow> Some (0, self2)))
      | _ # q \<Rightarrow> None)"

definition read_server_message :: "mqtt_client_t \<Rightarrow> (int \<times> mqtt_client_t) option" where
  "read_server_message self =
     (case read_fixed_header self of
        (hres, (type, flags, sz), self1) \<Rightarrow>
          if hres \<noteq> 0 then Some (- EIO, self1)
          else if type = MQTT_CONNACK then Some (post_result (handle_response_connack self1 sz))
          else if type = MQTT_PUBACK then Some (post_result (handle_response_puback self1 sz))
          else if type = MQTT_PUBREC \<or> type = MQTT_PUBREL \<or> type = MQTT_PUBCOMP
            then Some (0, self1)
          else if type = MQTT_SUBACK then Some (post_result (handle_response_suback self1 sz))
          else if type = MQTT_UNSUBACK then Some (post_result (handle_response_unsuback self1 sz))
          else if type = MQTT_PINGRESP then Some (post_result (handle_response_ping self1 sz))
          else if type = MQTT_PUBLISH then handle_publish self1 sz flags
          else Some (0, self1))"

text \<open>
  \<open>mqtt_client_init\<close>: the transport endpoints and the on-publish callback are its
  arguments; an \<open>on_error\<close> of the caller or the default logger is invoked the same
  way, so no argument stands for it.
\<close>

definition mqtt_client_init ::
  "out_chan \<Rightarrow> u8 list \<Rightarrow> (u8 list \<Rightarrow> u8 list \<Rightarrow> nat \<Rightarrow> int \<times> u8 list) \<Rightarrow> mqtt_client_t" where
  "mqtt_client_init transport_out_p transport_in_p on_publish_cb =
     \<lparr>state = mqtt_client_state_disconnected_t,
      message_type = CONTROL_NONE,
      transport_out = transport_out_p,
      transport_in = transport_in_p,
      control_in = [],
      control_out = [],
      on_publish = on_publish_cb,
      on_publish_calls = [],
      on_error_calls = []\<rparr>"

text \<open>What \<open>chan_list_poll\<close> returns: the channel that is ready.\<close>

datatype ready_chan = control_in_ready | transport_in_ready | other_ready

text \<open>One iteration of the \<open>while (1)\<close> of \<open>mqtt_client_main\<close>.\<close>

definition mqtt_client_main_step :: "ready_chan \<Rightarrow> mqtt_client_t \<Rightarrow> mqtt_client_t option" where
  "mqtt_client_main_step chan_p self =
     (case
        (case chan_p of
           control_in_ready \<Rightarrow> read_control_message self
         | transport_in_ready \<Rightarrow> read_server_message self
         | other_ready \<Rightarrow> Some (- 1, self))
      of
        None \<Rightarrow> None
      | Some (res, self1) \<Rightarrow>
          if res \<noteq> 0 then Some (self1\<lparr>on_error_calls := on_error_calls self1 @ [res]\<rparr>)
          else Some self1)"

subsection \<open>Application entry points\<close>

text \<open>
  \<open>control_routine\<close> runs on the caller's task: it writes the verb and the parameter
  to the inbound control queue, then blocks reading the result from the outbound one.
  The model splits it at the point where it blocks: \<open>control_routine_request\<close> is
  the two writes, \<open>control_routine_reply\<close> the read, which gives \<open>None\<close> as long as
  no result is posted.
\<close>

definition control_routine_request ::
  "mqtt_client_t \<Rightarrow> int \<Rightarrow> control_item list \<Rightarrow> mqtt_client_t" where
  "control_routine_request self type buf = self\<lparr>control_in := control_in self @ Verb type # buf\<rparr>"

definition control_routine_reply :: "mqtt_client_t \<Rightarrow> (int \<times> mqtt_client_t) option" where
  "control_routine_reply self =
     (case control_out self of
        [] \<Rightarrow> None
      | res # q \<Rightarrow> Some (res, self\<lparr>control_out := q\<rparr>))"

definition mqtt_client_connect :: "mqtt_client_t \<Rightarrow> mqtt_conn_options_t option \<Rightarrow> mqtt_client_t" where
  "mqtt_client_connect self options_p =
     control_routine_request self CONTROL_CONNECT [OptionsPtr options_p]"

definition mqtt_client_disconnect :: "mqtt_client_t \<Rightarrow> mqtt_client_t" where
  "mqtt_client_disconnect self = control_routine_request self CONTROL_DISCONNECT []"

definition mqtt_client_ping :: "mqtt_client_t \<Rightarrow> mqtt_client_t" where
  "mqtt_client_ping self = control_routine_request self CONTROL_PING []"

definition mqtt_client_publish :: "mqtt_client_t \<Rightarrow> mqtt_application_message_t \<Rightarrow> mqtt_client_t" where
  "mqtt_client_publish self message = control_routine_request self CONTROL_PUBLISH [MessagePtr message]"

definition mqtt_client_subscribe :: "mqtt_client_t \<Rightarrow> mqtt_application_message_t \<Rightarrow> mqtt_client_t" where
  "mqtt_client_subscribe self message =
     control_routine_request self CONTROL_SUBSCRIBE [MessagePtr message]"

definition mqtt_client_unsubscribe :: "mqtt_client_t \<Rightarrow> mqtt_application_message_t \<Rightarrow> mqtt_client_t" where
  "mqtt_client_unsubscribe self message =
     control_routine_request self CONTROL_UNSUBSCRIBE [MessagePtr message]"

section \<open>Vocabulary of the statements\<close>

text \<open>
  \<open>emit self bytes\<close> is the client after \<open>bytes\<close> went out on the transport in full.
\<close>

definition emit :: "mqtt_client_t \<Rightarrow> u8 list \<Rightarrow> mqtt_client_t" where
  "emit self bytes =
     self\<lparr>transport_out :=
       (transport_out self)\<lparr>sent := sent (transport_out self) @ bytes,
                             room := room (transport_out self) - length bytes\<rparr>\<rparr>"

text \<open>
  The remaining-length field as the MQTT standard describes it: base 128, least
  significant group first, the top bit set on every byte but the last.
\<close>

function remaining_length_bytes :: "nat \<Rightarrow> u8 list" where
  "remaining_length_bytes n =
     (if n div 128 > 0 then (word_of_nat (n mod 128) OR 0x80) # remaining_length_bytes (n div 128)
      else [word_of_nat (n mod 128)])"
  by pat_completeness auto
termination
  by (relation "measure (\<lambda>n. n)") auto

declare remaining_length_bytes.simps [simp del]

text \<open>The bytes of a fixed header: the type and flags byte, then the remaining length.\<close>

definition fixed_header_bytes :: "int \<Rightarrow> int \<Rightarrow> nat \<Rightarrow> u8 list" where
  "fixed_header_bytes type flags sz =
     word_of_int (push_bit 4 type OR flags) # remaining_length_bytes sz"

text \<open>
  An MQTT string on the wire: the two bytes of its size, then its bytes. The bytes
  alone are \<open>string_data\<close>. A string is in bounds when the caller's buffer holds at
  least the bytes its size announces.
\<close>

definition mqtt_string_bytes :: "mqtt_string_t \<Rightarrow> u8 list" where
  "mqtt_string_bytes s =
     MSB (size_s s) # LSB (size_s s) #
       (case buf_p s of None \<Rightarrow> [] | Some b \<Rightarrow> take (size_s s) b)"

definition string_data :: "mqtt_string_t \<Rightarrow> u8 list" where
  "string_data s = (case buf_p s of None \<Rightarrow> [] | Some b \<Rightarrow> take (size_s s) b)"

definition string_in_bounds :: "mqtt_string_t \<Rightarrow> bool" where
  "string_in_bounds s = (case buf_p s of None \<Rightarrow> True | Some b \<Rightarrow> size_s s \<le> length b)"

text \<open>
  A client for the concrete scenarios: fresh from \<open>mqtt_client_init\<close>, with a transport
  that takes 4096 bytes, the given bytes waiting on the transport input, and an
  on-publish callback that reads exactly the payload and returns 0.
\<close>

definition drain_payload :: "u8 list \<Rightarrow> u8 list \<Rightarrow> nat \<Rightarrow> int \<times> u8 list" where
  "drain_payload topic_buf inp payload_size = (0, drop payload_size inp)"

definition fresh_client :: "u8 list \<Rightarrow> mqtt_client_t" where
  "fresh_client inp = mqtt_client_init \<lparr>sent = [], room = 4096\<rparr> inp drain_payload"

text \<open>
  The options \<open>handle_control_connect\<close> works with for a given pointer: the zeroed
  defaults for a null pointer, and the default client identifier in place of an empty
  one. The payload of the connect packet is then the client identifier, the will topic
  and payload when there is a will, the user name and the password when given.
\<close>

definition options_in_use :: "mqtt_conn_options_t option \<Rightarrow> mqtt_conn_options_t" where
  "options_in_use options_p =
     (let options0 = (case options_p of None \<Rightarrow> default_options | Some options \<Rightarrow> options)
      in if size_s (client_id options0) = 0
         then options0\<lparr>client_id := default_client_id\<rparr> else options0)"

definition connect_payload_bytes :: "mqtt_conn_options_t \<Rightarrow> u8 list" where
  "connect_payload_bytes options =
     mqtt_string_bytes (client_id options) @
     (if size_s (will_topic options) > 0
      then mqtt_string_bytes (will_topic options) @ mqtt_string_bytes (will_payload options)
      else []) @
     (if size_s (user_name options) > 0 then mqtt_string_bytes (user_name options) else []) @
     (if size_s (password options) > 0 then mqtt_string_bytes (password options) else [])"

text \<open>
  A connect request with no client identifier, will, user name or password: a null
  options pointer, or options whose five strings have size 0.
\<close>

definition plain_options :: "mqtt_conn_options_t option \<Rightarrow> bool" where
  "plain_options options_p =
     (case options_p of
        None \<Rightarrow> True
      | Some options \<Rightarrow>
          size_s (client_id options) = 0 \<and> size_s (will_topic options) = 0 \<and>
          size_s (will_payload options) = 0 \<and> size_s (user_name options) = 0 \<and>
          size_s (password options) = 0)"

text \<open>
  The result and the bytes on the wire when a client fresh from \<open>mqtt_client_init\<close>
  handles a connect request with the given options pointer.
\<close>

definition connect_wire :: "mqtt_conn_options_t option \<Rightarrow> (int \<times> u8 list) option" where
  "connect_wire options_p =
     (case handle_control_connect ((fresh_client [])\<lparr>control_in := [OptionsPtr options_p]\<rparr>) of
        None \<Rightarrow> None
      | Some (res, self1) \<Rightarrow> Some (res, sent (transport_out self1)))"

text \<open>
  The clients that can arise: \<open>mqtt_client_init\<close> makes one, the event loop takes it
  through its iterations, and between iterations the application tasks and the broker
  act on the four channels, which is all they can reach of the client.
\<close>

inductive reachable :: "mqtt_client_t \<Rightarrow> bool" where
  init: "reachable (mqtt_client_init transport_out_p transport_in_p on_publish_cb)"
| step: "reachable self \<Longrightarrow> mqtt_client_main_step chan_p self = Some self' \<Longrightarrow> reachable self'"
| channels: "reachable self \<Longrightarrow>
     reachable (self\<lparr>transport_out := out, transport_in := inp,
                     control_in := requests, control_out := results\<rparr>)"

section \<open>Lemmas on the codec\<close>

lemma size_t_wrap_id: "0 \<le> x \<Longrightarrow> x < 2 ^ 32 \<Longrightarrow> size_t_wrap x = nat x"
  by (simp add: size_t_wrap_def)

lemma MSB_LSB_big_endian: "n \<le> 65535 \<Longrightarrow> 256 * unat (MSB n) + unat (LSB n) = n"
proof -
  assume n: "n \<le> 65535"
  have m: "x AND 0xff = x mod 256" for x :: nat
  proof -
    have "x AND mask 8 = x mod 2 ^ 8" by (simp only: take_bit_eq_mask [symmetric] take_bit_eq_mod)
    then show ?thesis by (simp add: mask_eq_exp_minus_1)
  qed
  from n have d: "n div 256 < 256" by simp
  have "unat (MSB n) = n div 256"
    using d by (simp add: MSB_def m drop_bit_eq_div unat_of_nat take_bit_nat_eq_self)
  moreover have "unat (LSB n) = n mod 256"
    by (simp add: LSB_def m unat_of_nat take_bit_nat_eq_self)
  ultimately show ?thesis by simp
qed

lemma and_then_None [simp]: "and_then None f = None"
  by (simp add: and_then_def)

lemma and_then_Some [simp]: "and_then (Some (res, s)) f = (if res \<noteq> 0 then Some (res, s) else f s)"
  by (simp add: and_then_def)

lemma and_then_ok:
  "and_then m f = Some (0, s') \<longleftrightarrow> (\<exists>s1. m = Some (0, s1) \<and> f s1 = Some (0, s'))"
  by (auto simp: and_then_def split: option.splits if_splits)

lemma write_or_EIO_ok:
  "n \<le> length buf \<Longrightarrow> write_or_EIO self buf n = Some (0, s') \<longleftrightarrow> n \<le> room (transport_out self) \<and> s' = emit self (take n buf)"
  by (auto simp: write_or_EIO_def transport_write_def chan_write_def emit_def Let_def min_def)

lemma write_or_EIO_room:
  "n \<le> length buf \<Longrightarrow> n \<le> room (transport_out self) \<Longrightarrow> write_or_EIO self buf n = Some (0, emit self (take n buf))"
  by (simp add: write_or_EIO_ok)

lemma write_or_EIO_short:
  "room (transport_out self) < n \<Longrightarrow> n \<le> length buf \<Longrightarrow> write_or_EIO self buf n = Some (- EIO, emit self (take (room (transport_out self)) buf))"
  by (auto simp: write_or_EIO_def transport_write_def chan_write_def emit_def Let_def min_def)

lemma emit_emit [simp]: "emit (emit self a) b = emit self (a @ b)"
  by (simp add: emit_def)

lemma emit_fields [simp]:
  "state (emit self a) = state self" "message_type (emit self a) = message_type self"
  "transport_in (emit self a) = transport_in self" "control_in (emit self a) = control_in self"
  "control_out (emit self a) = control_out self"
  "sent (transport_out (emit self a)) = sent (transport_out self) @ a"
  "room (transport_out (emit self a)) = room (transport_out self) - length a"
  by (simp_all add: emit_def)

lemma length_rlb_pos: "0 < length (remaining_length_bytes n)"
  by (subst remaining_length_bytes.simps) simp

lemma write_size_loop_eq:
  "pos + length (remaining_length_bytes sz) \<le> length buf \<Longrightarrow>
   write_size_loop sz buf pos =
     Some (take pos buf @ remaining_length_bytes sz @ drop (pos + length (remaining_length_bytes sz)) buf,
           pos + length (remaining_length_bytes sz))"
proof (induction sz arbitrary: buf pos rule: remaining_length_bytes.induct)
  case (1 n)
  show ?case
  proof (cases "n div 128 > 0")
    case True
    then have rl: "remaining_length_bytes n = (word_of_nat (n mod 128) OR 0x80) # remaining_length_bytes (n div 128)"
      by (subst remaining_length_bytes.simps) simp
    from "1.prems" rl have pos: "pos < length buf" by simp
    have "write_size_loop n buf pos = write_size_loop (n div 128) (buf[pos := word_of_nat (n mod 128) OR 0x80]) (pos + 1)"
      using True pos by (subst write_size_loop.simps) simp
    also have "\<dots> = Some (take (pos + 1) (buf[pos := word_of_nat (n mod 128) OR 0x80]) @ remaining_length_bytes (n div 128)
         @ drop (pos + 1 + length (remaining_length_bytes (n div 128))) (buf[pos := word_of_nat (n mod 128) OR 0x80]),
         pos + 1 + length (remaining_length_bytes (n div 128)))"
      using "1.prems" rl by (intro "1.IH" [OF True]) simp
    finally show ?thesis using rl pos
      by (simp add: take_Suc_conv_app_nth)
  next
    case False
    then have rl: "remaining_length_bytes n = [word_of_nat (n mod 128)]"
      by (subst remaining_length_bytes.simps) simp
    from "1.prems" rl have pos: "pos < length buf" by simp
    show ?thesis using False pos rl
      by (subst write_size_loop.simps) (simp add: take_Suc_conv_app_nth upd_conv_take_nth_drop)
  qed
qed

lemma length_rlb: "n < 128 ^ k \<Longrightarrow> 0 < k \<Longrightarrow> length (remaining_length_bytes n) \<le> k"
proof (induction n arbitrary: k rule: remaining_length_bytes.induct)
  case (1 n)
  show ?case
  proof (cases "n div 128 > 0")
    case True
    then have rl: "remaining_length_bytes n = (word_of_nat (n mod 128) OR 0x80) # remaining_length_bytes (n div 128)"
      by (subst remaining_length_bytes.simps) simp
    from True "1.prems" have k: "k > 1" by (cases "k = 1") auto
    then obtain j where j: "k = Suc j" "0 < j" by (cases k) auto
    have "n div 128 < 128 ^ j" using "1.prems"(1) j by (simp add: less_mult_imp_div_less mult.commute)
    from "1.IH" [OF True this j(2)] show ?thesis using rl j by simp
  next
    case False
    then have rl: "remaining_length_bytes n = [word_of_nat (n mod 128)]"
      by (subst remaining_length_bytes.simps) simp
    then show ?thesis using "1.prems" by simp
  qed
qed


lemma byte7_and [simp]: "n < 128 \<Longrightarrow> (word_of_nat n :: u8) AND 0x7f = word_of_nat n"
proof -
  assume "n < 128"
  have "(word_of_nat n :: u8) AND 0x7f = take_bit 7 (word_of_nat n :: u8)"
    by (simp add: take_bit_eq_mask mask_eq_exp_minus_1)
  also have "\<dots> = word_of_nat (take_bit 7 n)"
    by (simp add: of_nat_take_bit) 
  also have "take_bit 7 n = n" using \<open>n < 128\<close> by (simp add: take_bit_nat_eq_self)
  finally show ?thesis .
qed

lemma byte7_unat [simp]: "n < 128 \<Longrightarrow> unat (word_of_nat n :: u8) = n"
  by (simp add: unat_of_nat take_bit_nat_eq_self)

lemma bit_x80 [simp]: "bit (0x80 :: u8) k \<longleftrightarrow> k = 7"
proof -
  have "(0x80 :: u8) = 2 ^ 7" by simp
  then show ?thesis unfolding bit_exp_iff by (simp only: bit_exp_iff possible_bit_word) auto
qed

lemma bit_x7f [simp]: "bit (0x7f :: u8) k \<longleftrightarrow> k < 7"
proof -
  have "(0x7f :: u8) = mask 7" by (simp add: mask_eq_exp_minus_1)
  then show ?thesis by (simp only: bit_mask_iff possible_bit_word) auto
qed

lemma bit_nat_128 [simp]: "bit (128 :: nat) k \<longleftrightarrow> k = 7"
proof -
  have "(128 :: nat) = 2 ^ 7" by simp
  then show ?thesis by (simp only: bit_exp_iff possible_bit_nat) auto
qed

lemma bit_nat_127 [simp]: "bit (127 :: nat) k \<longleftrightarrow> k < 7"
proof -
  have "(127 :: nat) = mask 7" by (simp add: mask_eq_exp_minus_1)
  then show ?thesis by (simp only: bit_mask_iff possible_bit_nat) auto
qed

lemma bit_int_128 [simp]: "bit (128 :: int) k \<longleftrightarrow> k = 7"
proof -
  have "(128 :: int) = 2 ^ 7" by simp
  then show ?thesis by (simp only: bit_exp_iff possible_bit_int) auto
qed

lemma bit_int_127 [simp]: "bit (127 :: int) k \<longleftrightarrow> k < 7"
proof -
  have "(127 :: int) = mask 7" by (simp add: mask_eq_exp_minus_1)
  then show ?thesis by (simp only: bit_mask_iff possible_bit_int) auto
qed

lemma not_bit_ge7: "n < 128 \<Longrightarrow> 7 \<le> k \<Longrightarrow> \<not> bit n k" for n :: nat
proof -
  assume "n < 128" "7 \<le> k"
  have "(2::nat) ^ 7 \<le> 2 ^ k" using \<open>7 \<le> k\<close> by (intro power_increasing) auto
  with \<open>n < 128\<close> have "n < 2 ^ k" by simp
  then show ?thesis by (simp add: bit_iff_odd)
qed

lemma byte7_top [simp]: "n < 128 \<Longrightarrow> (word_of_nat n :: u8) AND 0x80 = 0"
  by (rule bit_word_eqI) (auto simp: bit_simps not_bit_ge7)

lemma byte7_or_and [simp]: "n < 128 \<Longrightarrow> ((word_of_nat n :: u8) OR 0x80) AND 0x7f = word_of_nat n"
proof (rule bit_word_eqI)
  fix k assume "k < LENGTH(8)"
  assume n: "n < 128"
  have "bit n k \<Longrightarrow> k < 7" using not_bit_ge7 [OF n, of k] by (cases "k < 7") auto
  then show "bit (((word_of_nat n :: u8) OR 0x80) AND 0x7f) k = bit (word_of_nat n :: u8) k"
    using \<open>k < LENGTH(8)\<close> by (auto simp: bit_and_iff bit_or_iff bit_of_nat_iff)
qed

lemma byte7_or_top [simp]: "((w :: u8) OR 0x80) AND 0x80 = 0x80"
  by (rule bit_word_eqI) (auto simp: bit_simps)

lemma read_size_loop_rlb:
  "m * 128 ^ length (remaining_length_bytes n) \<le> 128 ^ 3 \<Longrightarrow>
   read_size_loop (remaining_length_bytes n @ rest) acc m = (0, acc + n * m, rest)"
proof (induction n arbitrary: acc m rule: remaining_length_bytes.induct)
  case (1 n)
  have m128: "m * 128 \<le> 128 * 128 * 128"
  proof -
    have "(128::nat) ^ 1 \<le> 128 ^ length (remaining_length_bytes n)"
      using length_rlb_pos [of n] by (intro power_increasing) (auto simp: Suc_le_eq)
    then have "m * 128 \<le> m * 128 ^ length (remaining_length_bytes n)"
      by (simp only: power_one_right mult_le_mono2)
    from this "1.prems" have "m * 128 \<le> 128 ^ 3" by (rule order_trans)
    then show ?thesis by simp
  qed
  have lt: "n mod 128 < 128" by simp
  show ?case
  proof (cases "n div 128 > 0")
    case True
    then have rl: "remaining_length_bytes n = (word_of_nat (n mod 128) OR 0x80) # remaining_length_bytes (n div 128)"
      by (subst remaining_length_bytes.simps) simp
    have "m * 128 * 128 ^ length (remaining_length_bytes (n div 128)) \<le> 128 ^ 3"
      using "1.prems" rl by (simp add: mult.assoc)
    from "1.IH" [OF True this]
    have "read_size_loop (remaining_length_bytes (n div 128) @ rest) (acc + n mod 128 * m) (m * 128)
          = (0, acc + n mod 128 * m + n div 128 * (m * 128), rest)" .
    moreover have "n mod 128 * m + n div 128 * (m * 128) = n * m"
    proof -
      have "n * m = (n div 128 * 128 + n mod 128) * m"
        by (simp only: div_mult_mod_eq)
      also have "\<dots> = n div 128 * 128 * m + n mod 128 * m"
        by (rule distrib_right)
      finally show ?thesis by (simp only: ac_simps)
    qed
    ultimately show ?thesis using rl m128 lt by (simp add: add.assoc)
  next
    case False
    then have rl: "remaining_length_bytes n = [word_of_nat (n mod 128)]"
      by (subst remaining_length_bytes.simps) simp
    from False have "n mod 128 = n" by simp
    then show ?thesis using rl m128 lt by simp
  qed
qed

lemma write_or_EIO_eq:
  "n \<le> length buf \<Longrightarrow>
   write_or_EIO self buf n =
     (if n \<le> room (transport_out self) then Some (0, emit self (take n buf))
      else Some (- EIO, emit self (take (room (transport_out self)) buf)))"
  by (simp add: write_or_EIO_room write_or_EIO_short)

lemma length_mqtt_string_bytes:
  "string_in_bounds s \<Longrightarrow> buf_p s \<noteq> None \<Longrightarrow> length (mqtt_string_bytes s) = size_s s + 2"
  by (auto simp: string_in_bounds_def mqtt_string_bytes_def)

lemma write_mqtt_string_eq:
  assumes "string_in_bounds s"
  shows
    "write_mqtt_string self s =
       (if size_s s = 0 \<or> buf_p s = None \<or> size_s s > 65535 then Some (- EINVAL, self)
        else if size_s s + 2 \<le> room (transport_out self)
          then Some (0, emit self (mqtt_string_bytes s))
        else Some (- EIO, emit self (take (room (transport_out self)) (mqtt_string_bytes s))))"
proof (cases "size_s s = 0 \<or> buf_p s = None \<or> size_s s > 65535")
  case True
  then show ?thesis by (auto simp: write_mqtt_string_def)
next
  case False
  then obtain b where b: "buf_p s = Some b" "size_s s \<le> length b" "0 < size_s s" "size_s s \<le> 65535"
    using assms by (auto simp: string_in_bounds_def)
  have bytes: "mqtt_string_bytes s = [MSB (size_s s), LSB (size_s s)] @ take (size_s s) b"
    by (simp add: mqtt_string_bytes_def b)
  have mem: "write_mem_or_EIO c (Some b) (size_s s) =
      (if size_s s \<le> room (transport_out c) then Some (0, emit c (take (size_s s) b))
       else Some (- EIO, emit c (take (room (transport_out c)) (take (size_s s) b))))" for c
    using b by (simp add: write_mem_or_EIO_def deref_def write_or_EIO_eq)
  show ?thesis
  proof (cases "2 \<le> room (transport_out self)")
    case True
    then show ?thesis using False b
      by (auto simp: write_mqtt_string_def write_or_EIO_eq mem bytes take_Cons' min_def)
  next
    case short: False
    then have "room (transport_out self) = 0 \<or> room (transport_out self) = 1" by auto
    then show ?thesis using False b
      by (auto simp: write_mqtt_string_def write_or_EIO_eq bytes)
  qed
qed

lemma write_fixed_header_eq:
  assumes "length (remaining_length_bytes sz) \<le> 4"
  shows "write_fixed_header self type flags sz =
     (if 1 + length (remaining_length_bytes sz) \<le> room (transport_out self)
      then Some (0, emit self (fixed_header_bytes type flags sz))
      else Some (- EIO, emit self (take (room (transport_out self)) (fixed_header_bytes type flags sz))))"
proof -
  let ?h = "word_of_int (push_bit 4 type OR flags) :: u8"
  let ?r = "remaining_length_bytes sz"
  have "write_size_loop sz [?h, 0, 0, 0, 0] 1 =
        Some (take 1 [?h, 0, 0, 0, 0] @ ?r @ drop (1 + length ?r) [?h, 0, 0, 0, 0], 1 + length ?r)"
    using assms by (intro write_size_loop_eq) simp
  moreover have "take n (?h # ?r @ ys) = take n (?h # ?r)" if "n \<le> length ?r" for n ys
    using that by (cases n) simp_all
  ultimately show ?thesis
    by (simp add: write_fixed_header_def write_or_EIO_eq fixed_header_bytes_def not_le less_Suc_eq_le)
qed

lemma rlb_small [simp]: "n < 128 \<Longrightarrow> remaining_length_bytes n = [word_of_nat n]"
  by (subst remaining_length_bytes.simps) simp

lemma take3_conv: "length (take 3 xs) = 3 \<longleftrightarrow> (\<exists>a b c r. xs = a # b # c # r)"
proof -
  have "length (take 3 xs) = 3 \<longleftrightarrow> 3 \<le> length xs" by auto
  also have "\<dots> \<longleftrightarrow> (\<exists>a b c r. xs = a # b # c # r)"
    by (auto simp: numeral_3_eq_3 Suc_le_length_iff)
  finally show ?thesis .
qed

section \<open>What the handlers leave unchanged\<close>

lemma and_thenE:
  assumes "and_then m f = Some (r, s')"
  obtains (stop) "m = Some (r, s')" "r \<noteq> 0"
        | (go) s1 where "m = Some (0, s1)" "f s1 = Some (r, s')"
  using assms by (auto simp: and_then_def split: option.splits if_splits)

lemma write_or_EIO_frame:
  "write_or_EIO self buf n = Some (r, s') \<Longrightarrow> state s' = state self \<and> message_type s' = message_type self"
  by (auto simp: write_or_EIO_def transport_write_def chan_write_def Let_def split: if_splits)

lemma write_mem_or_EIO_frame:
  "write_mem_or_EIO self p n = Some (r, s') \<Longrightarrow> state s' = state self \<and> message_type s' = message_type self"
  by (auto simp: write_mem_or_EIO_def split: option.splits dest: write_or_EIO_frame)

lemma write_fixed_header_frame:
  "write_fixed_header self type flags sz = Some (r, s') \<Longrightarrow> state s' = state self \<and> message_type s' = message_type self"
  by (auto simp: write_fixed_header_def split: option.splits dest: write_or_EIO_frame)

lemma write_mqtt_string_frame:
  "write_mqtt_string self s = Some (r, s') \<Longrightarrow> state s' = state self \<and> message_type s' = message_type self"
  by (auto simp: write_mqtt_string_def split: if_splits elim!: and_thenE
      dest!: write_or_EIO_frame write_mem_or_EIO_frame)

lemmas frames = write_or_EIO_frame write_mem_or_EIO_frame write_fixed_header_frame write_mqtt_string_frame

lemma connect_options_frame:
  "connect_options self options = Some (r, s') \<Longrightarrow>
     state s' = state self \<and> (message_type s' = message_type self \<or> message_type s' = CONTROL_CONNECT)"
  by (auto simp: connect_options_def Let_def split: if_splits elim!: and_thenE dest!: frames)

lemma handle_control_connect_frame:
  "handle_control_connect self = Some (r, s') \<Longrightarrow>
     state s' = state self \<and> (message_type s' = message_type self \<or> message_type s' = CONTROL_CONNECT)"
  by (auto simp: handle_control_connect_def split: list.splits control_item.splits
      dest!: connect_options_frame)

lemma handle_control_ping_frame:
  "handle_control_ping self = Some (r, s') \<Longrightarrow>
     state s' = state self \<and> (message_type s' = message_type self \<or> message_type s' = CONTROL_PING)"
  by (auto simp: handle_control_ping_def elim!: and_thenE dest!: frames)

lemma handle_control_publish_frame:
  "handle_control_publish self = Some (r, s') \<Longrightarrow>
     state s' = state self \<and> (message_type s' = message_type self \<or> message_type s' = CONTROL_PUBLISH)"
  by (auto simp: handle_control_publish_def publish_message_def Let_def
      split: list.splits control_item.splits if_splits elim!: and_thenE dest!: frames)

lemma handle_control_subscribe_frame:
  "handle_control_subscribe self = Some (r, s') \<Longrightarrow>
     state s' = state self \<and> (message_type s' = message_type self \<or> message_type s' = CONTROL_SUBSCRIBE)"
  by (auto simp: handle_control_subscribe_def subscribe_message_def Let_def
      split: list.splits control_item.splits if_splits elim!: and_thenE dest!: frames)

lemma handle_control_unsubscribe_frame:
  "handle_control_unsubscribe self = Some (r, s') \<Longrightarrow>
     state s' = state self \<and> (message_type s' = message_type self \<or> message_type s' = CONTROL_UNSUBSCRIBE)"
  by (auto simp: handle_control_unsubscribe_def unsubscribe_message_def Let_def
      split: list.splits control_item.splits if_splits elim!: and_thenE dest!: frames)

lemma rlb_0 [simp]: "remaining_length_bytes 0 = [0]"
  by (subst remaining_length_bytes.simps) simp

lemma handle_control_disconnect_cases:
  "handle_control_disconnect self = Some (r, s') \<Longrightarrow>
     message_type s' = message_type self \<and>
     (state s' = state self \<and> r \<noteq> 0 \<or>
      r = 0 \<and> state s' = mqtt_client_state_disconnected_t \<and>
      sent (transport_out s') = sent (transport_out self) @ [0xE0, 0x00])"
  by (auto simp: handle_control_disconnect_def write_fixed_header_eq fixed_header_bytes_def
      split: if_splits)


lemma handle_response_connack_cases:
  "handle_response_connack self sz = (r, s') \<Longrightarrow>
     (state s' = state self \<and> r \<noteq> 0 \<and>
        (message_type s' = message_type self \<or> message_type s' = CONTROL_NONE)) \<or>
     (r = 0 \<and> state s' = mqtt_client_state_connected_t \<and> message_type s' = CONTROL_NONE \<and>
        message_type self = CONTROL_CONNECT \<and> sz = 2 \<and>
        (\<exists>rest. transport_in self = 0 # CONNECTION_ACCEPTED # rest))"
proof (cases "sz = 2 \<and> 2 \<le> length (transport_in self)")
  case True
  then obtain a b rest where "transport_in self = a # b # rest"
    by (auto simp: numeral_2_eq_2 Suc_le_length_iff)
  moreover assume "handle_response_connack self sz = (r, s')"
  ultimately show ?thesis using True
    by (auto simp: handle_response_connack_def transport_read_def chan_read_def Let_def
        split: if_splits)
next
  case False
  moreover assume "handle_response_connack self sz = (r, s')"
  ultimately show ?thesis
    by (auto simp: handle_response_connack_def transport_read_def chan_read_def Let_def
        split: if_splits)
qed

lemma handle_response_frames:
  "handle_response_puback self sz = (r, s') \<Longrightarrow>
     state s' = state self \<and> (message_type s' = message_type self \<or> message_type s' = CONTROL_NONE)"
  "handle_response_suback self sz = (r, s') \<Longrightarrow>
     state s' = state self \<and> (message_type s' = message_type self \<or> message_type s' = CONTROL_NONE)"
  "handle_response_unsuback self sz = (r, s') \<Longrightarrow>
     state s' = state self \<and> (message_type s' = message_type self \<or> message_type s' = CONTROL_NONE)"
  "handle_response_ping self sz = (r, s') \<Longrightarrow>
     state s' = state self \<and> (message_type s' = message_type self \<or> message_type s' = CONTROL_NONE)"
  by (auto simp: handle_response_puback_def handle_response_suback_def
      handle_response_unsuback_def handle_response_ping_def transport_read_def chan_read_def
      Let_def split: if_splits)

lemma handle_publish_frame:
  "handle_publish self sz flags = Some (r, s') \<Longrightarrow>
     state s' = state self \<and> message_type s' = message_type self"
  by (auto simp: handle_publish_def transport_read_def chan_read_def call_on_publish_def Let_def
      split: if_splits prod.splits elim!: and_thenE dest!: frames)

lemma read_fixed_header_frame:
  "read_fixed_header self = (r, h, s1) \<Longrightarrow>
     state s1 = state self \<and> message_type s1 = message_type self \<and>
     control_out s1 = control_out self"
  by (auto simp: read_fixed_header_def split: list.splits prod.splits)


lemma read_control_message_cases:
  assumes "read_control_message self = Some (r, s')"
  shows "(state s' = state self \<and>
            (message_type s' = message_type self \<or>
             message_type s' = CONTROL_CONNECT \<and> state self = mqtt_client_state_disconnected_t \<or>
             message_type s' \<noteq> CONTROL_CONNECT))
         \<or> (state self = mqtt_client_state_connected_t \<and>
             state s' = mqtt_client_state_disconnected_t \<and>
             message_type s' = message_type self \<and>
             (\<exists>q. control_in self = Verb CONTROL_DISCONNECT # q) \<and>
             sent (transport_out s') = sent (transport_out self) @ [0xE0, 0x00])"
proof (cases "control_in self")
  case Nil
  with assms show ?thesis by (simp add: read_control_message_def)
next
  case (Cons item q)
  show ?thesis
  proof (cases item)
    case (Verb type)
    let ?s1 = "self\<lparr>control_in := q\<rparr>"
    show ?thesis
    proof (cases "state self")
      case mqtt_client_state_disconnected_t
      with assms Cons Verb show ?thesis
        by (auto simp: read_control_message_def Let_def split: if_splits option.splits
            dest!: handle_control_connect_frame)
    next
      case mqtt_client_state_connected_t
      with assms Cons Verb show ?thesis
        by (auto simp: read_control_message_def Let_def post_result_def
            split: if_splits option.splits prod.splits
            dest!: handle_control_disconnect_cases handle_control_ping_frame
              handle_control_publish_frame handle_control_subscribe_frame
              handle_control_unsubscribe_frame)
    qed
  next
    case (OptionsPtr x)
    with assms Cons show ?thesis by (simp add: read_control_message_def)
  next
    case (MessagePtr x)
    with assms Cons show ?thesis by (simp add: read_control_message_def)
  qed
qed

lemma read_server_message_cases:
  assumes "read_server_message self = Some (r, s')"
  shows "(state s' = state self \<and>
            (message_type s' = message_type self \<or> message_type s' = CONTROL_NONE))
         \<or> (state s' = mqtt_client_state_connected_t \<and> message_type s' = CONTROL_NONE \<and>
             message_type self = CONTROL_CONNECT \<and>
             (\<exists>flags self1 rest. read_fixed_header self = (0, (MQTT_CONNACK, flags, 2), self1) \<and>
                 transport_in self1 = 0 # CONNECTION_ACCEPTED # rest))"
proof -
  obtain hres type flags sz self1 where h: "read_fixed_header self = (hres, (type, flags, sz), self1)"
    by (metis prod_cases3)
  note f = read_fixed_header_frame [OF h]
  show ?thesis
  proof (cases "hres = 0 \<and> type = MQTT_CONNACK")
    case True
    with assms h obtain s2 where c: "handle_response_connack self1 sz = (r, s2)"
      and s': "s' = s2\<lparr>control_out := control_out s2 @ [r]\<rparr>"
      by (auto simp: read_server_message_def post_result_def split: prod.splits)
    from handle_response_connack_cases [OF c] f h True s' show ?thesis
      by auto
  next
    case False
    with assms h f show ?thesis
      by (auto simp: read_server_message_def post_result_def split: if_splits prod.splits
          dest!: handle_response_frames handle_publish_frame)
  qed
qed

lemma main_step_cases:
  assumes "mqtt_client_main_step chan_p self = Some self'"
    and "message_type self = CONTROL_CONNECT \<longrightarrow> state self = mqtt_client_state_disconnected_t"
  shows "(message_type self' = CONTROL_CONNECT \<longrightarrow> state self' = mqtt_client_state_disconnected_t) \<and>
     (state self' = state self
      \<or> (state self = mqtt_client_state_disconnected_t \<and>
          state self' = mqtt_client_state_connected_t \<and>
          chan_p = transport_in_ready \<and>
          message_type self = CONTROL_CONNECT \<and>
          (\<exists>flags self1 rest. read_fixed_header self = (0, (MQTT_CONNACK, flags, 2), self1) \<and>
              transport_in self1 = 0 # CONNECTION_ACCEPTED # rest))
      \<or> (state self = mqtt_client_state_connected_t \<and>
          state self' = mqtt_client_state_disconnected_t \<and>
          chan_p = control_in_ready \<and>
          (\<exists>q. control_in self = Verb CONTROL_DISCONNECT # q) \<and>
          sent (transport_out self') = sent (transport_out self) @ [0xE0, 0x00]))"
proof (cases chan_p)
  case control_in_ready
  with assms(1) obtain r s1 where rc: "read_control_message self = Some (r, s1)"
    and s': "self' = s1 \<or> self' = s1\<lparr>on_error_calls := on_error_calls s1 @ [r]\<rparr>"
    by (auto simp: mqtt_client_main_step_def split: option.splits if_splits)
  from read_control_message_cases [OF rc] s' assms(2) control_in_ready show ?thesis
    by (cases "state self") auto
next
  case transport_in_ready
  with assms(1) obtain r s1 where rs: "read_server_message self = Some (r, s1)"
    and s': "self' = s1 \<or> self' = s1\<lparr>on_error_calls := on_error_calls s1 @ [r]\<rparr>"
    by (auto simp: mqtt_client_main_step_def split: option.splits if_splits)
  from read_server_message_cases [OF rs] s' assms(2) transport_in_ready show ?thesis
    by (cases "state self") auto
next
  case other_ready
  with assms show ?thesis
    by (auto simp: mqtt_client_main_step_def)
qed

lemma reachable_inflight:
  "reachable self \<Longrightarrow>
     message_type self = CONTROL_CONNECT \<longrightarrow> state self = mqtt_client_state_disconnected_t"
proof (induction rule: reachable.induct)
  case (init transport_out_p transport_in_p on_publish_cb)
  show ?case by (simp add: mqtt_client_init_def)
next
  case (step self chan_p self')
  from main_step_cases [OF step.hyps(2) step.IH] show ?case by blast
next
  case (channels self out inp requests results)
  then show ?case by simp
qed

section \<open>What a successful write has written\<close>

lemma write_size_loop_None:
  "length buf < pos + length (remaining_length_bytes sz) \<Longrightarrow> write_size_loop sz buf pos = None"
proof (induction sz arbitrary: buf pos rule: remaining_length_bytes.induct)
  case (1 n)
  show ?case
  proof (cases "n div 128 > 0")
    case True
    then have rl: "remaining_length_bytes n = (word_of_nat (n mod 128) OR 0x80) # remaining_length_bytes (n div 128)"
      by (subst remaining_length_bytes.simps) simp
    show ?thesis
    proof (cases "pos \<ge> length buf")
      case True
      then show ?thesis by (subst write_size_loop.simps) simp
    next
      case False
      have "write_size_loop (n div 128) (buf[pos := word_of_nat (n mod 128) OR 0x80]) (pos + 1) = None"
        using "1.prems" rl by (intro "1.IH" [OF True]) simp
      then show ?thesis using False True by (subst write_size_loop.simps) simp
    qed
  next
    case False
    then have rl: "remaining_length_bytes n = [word_of_nat (n mod 128)]"
      by (subst remaining_length_bytes.simps) simp
    with "1.prems" have "pos \<ge> length buf" by simp
    then show ?thesis by (subst write_size_loop.simps) simp
  qed
qed

lemma write_fixed_header_ok:
  assumes "write_fixed_header self type flags sz = Some (0, s')"
  shows "s' = emit self (fixed_header_bytes type flags sz) \<and> length (remaining_length_bytes sz) \<le> 4"
proof (cases "length (remaining_length_bytes sz) \<le> 4")
  case True
  with assms show ?thesis by (simp add: write_fixed_header_eq split: if_splits)
next
  case False
  then have "write_size_loop sz [word_of_int (push_bit 4 type OR flags), 0, 0, 0, 0] 1 = None"
    by (intro write_size_loop_None) simp
  with assms show ?thesis by (simp add: write_fixed_header_def)
qed

lemma write_mqtt_string_ok:
  assumes "write_mqtt_string self s = Some (0, s')"
  shows "s' = emit self (mqtt_string_bytes s) \<and> length (mqtt_string_bytes s) = size_s s + 2 \<and>
         size_s s \<le> 65535"
proof (cases "string_in_bounds s")
  case True
  with assms show ?thesis
    by (auto simp: write_mqtt_string_eq length_mqtt_string_bytes split: if_splits)
next
  case False
  then have "deref (buf_p s) (size_s s) = None"
    by (auto simp: string_in_bounds_def deref_def split: option.splits)
  with assms show ?thesis
    by (auto simp: write_mqtt_string_def write_mem_or_EIO_def and_then_ok split: if_splits)
qed


lemma will_strings_ok:
  assumes "(if size_s t > 0
            then and_then (write_mqtt_string s3 t) (\<lambda>s4. write_mqtt_string s4 p)
            else Some (0, s3)) = Some (0, s5)"
  shows "s5 = emit s3 (if size_s t > 0 then mqtt_string_bytes t @ mqtt_string_bytes p else []) \<and>
         (if size_s t > 0
          then length (mqtt_string_bytes t @ mqtt_string_bytes p) = (size_s t + 2) + (size_s p + 2) \<and>
               size_s t \<le> 65535 \<and> size_s p \<le> 65535
          else True)"
proof (cases "size_s t > 0")
  case True
  with assms obtain s4 where a: "write_mqtt_string s3 t = Some (0, s4)"
    and b: "write_mqtt_string s4 p = Some (0, s5)"
    by (auto simp: and_then_ok)
  from write_mqtt_string_ok [OF a] write_mqtt_string_ok [OF b] True show ?thesis by simp
next
  case False
  with assms show ?thesis by (simp add: emit_def)
qed

lemma optional_string_ok:
  assumes "(if size_s t > 0 then write_mqtt_string s3 t else Some (0, s3)) = Some (0, s5)"
  shows "s5 = emit s3 (if size_s t > 0 then mqtt_string_bytes t else []) \<and>
         (if size_s t > 0 then length (mqtt_string_bytes t) = size_s t + 2 \<and> size_s t \<le> 65535
          else True)"
proof (cases "size_s t > 0")
  case True
  with assms have a: "write_mqtt_string s3 t = Some (0, s5)" by simp
  from write_mqtt_string_ok [OF a] True show ?thesis by simp
next
  case False
  with assms show ?thesis by (simp add: emit_def)
qed

lemma connect_options_ok:
  assumes ok: "connect_options self options0 = Some (0, self')"
  defines "options \<equiv> (if size_s (client_id options0) = 0
                        then options0\<lparr>client_id := default_client_id\<rparr> else options0)"
  defines "pl \<equiv> connect_payload_length options"
  shows "self' = (emit self
                   (fixed_header_bytes MQTT_CONNECT 0 (12 + pl) @
                    [0x00, 0x04, 0x4D, 0x51, 0x54, 0x54, 0x04, connect_flags options,
                     0x01, 0x2C, MSB pl, LSB pl] @
                    connect_payload_bytes options))
       \<lparr>message_type := CONTROL_CONNECT\<rparr> \<and>
         length (connect_payload_bytes options) = pl \<and> pl \<le> 5 * 65537"
proof -
  from ok have chain:
    "and_then (write_fixed_header self MQTT_CONNECT 0 (size_t_wrap (12 + int pl))) (\<lambda>self1.
     and_then (write_or_EIO self1
                 [0, 4, 0x4D, 0x51, 0x54, 0x54, 4, connect_flags options,
                  MSB KEEP_ALIVE, LSB KEEP_ALIVE, MSB pl, LSB pl] 12) (\<lambda>self2.
     and_then (write_mqtt_string self2 (client_id options)) (\<lambda>self3.
     and_then (if size_s (will_topic options) > 0
               then and_then (write_mqtt_string self3 (will_topic options)) (\<lambda>self4.
                    write_mqtt_string self4 (will_payload options))
               else Some (0, self3)) (\<lambda>self5.
     and_then (if size_s (user_name options) > 0
               then write_mqtt_string self5 (user_name options)
               else Some (0, self5)) (\<lambda>self6.
     and_then (if size_s (password options) > 0
               then write_mqtt_string self6 (password options)
               else Some (0, self6)) (\<lambda>self7.
     Some (0, self7\<lparr>message_type := CONTROL_CONNECT\<rparr>))))))) = Some (0, self')"
    unfolding connect_options_def Let_def options_def [symmetric] pl_def [symmetric]
    by (simp split: if_splits)
  from chain [unfolded and_then_ok] obtain s1 s2 s3 s5 s6 s7 where
    h: "write_fixed_header self MQTT_CONNECT 0 (size_t_wrap (12 + int pl)) = Some (0, s1)" and
    v: "write_or_EIO s1 [0, 4, 0x4D, 0x51, 0x54, 0x54, 4, connect_flags options,
                        MSB KEEP_ALIVE, LSB KEEP_ALIVE, MSB pl, LSB pl] 12 = Some (0, s2)" and
    c: "write_mqtt_string s2 (client_id options) = Some (0, s3)" and
    w: "(if size_s (will_topic options) > 0
         then and_then (write_mqtt_string s3 (will_topic options))
                (\<lambda>s4. write_mqtt_string s4 (will_payload options))
         else Some (0, s3)) = Some (0, s5)" and
    u: "(if size_s (user_name options) > 0 then write_mqtt_string s5 (user_name options)
         else Some (0, s5)) = Some (0, s6)" and
    p: "(if size_s (password options) > 0 then write_mqtt_string s6 (password options)
         else Some (0, s6)) = Some (0, s7)" and
    e: "self' = s7\<lparr>message_type := CONTROL_CONNECT\<rparr>"
    by auto
  note C = write_mqtt_string_ok [OF c]
  note W = will_strings_ok [OF w]
  note U = optional_string_ok [OF u]
  note P = optional_string_ok [OF p]
  have len: "length (connect_payload_bytes options) = pl"
    using C W U P by (auto simp: connect_payload_bytes_def pl_def connect_payload_length_def Let_def)
  have bound: "pl \<le> 5 * 65537"
    using C W U P by (auto simp: pl_def connect_payload_length_def Let_def split: if_splits)
  then have wrap: "size_t_wrap (12 + int pl) = 12 + pl"
    by (subst size_t_wrap_id) auto
  note H = write_fixed_header_ok [OF h [unfolded wrap]]
  from v have V: "s2 = emit s1 [0, 4, 0x4D, 0x51, 0x54, 0x54, 4, connect_flags options,
                        MSB KEEP_ALIVE, LSB KEEP_ALIVE, MSB pl, LSB pl]"
    by (simp add: write_or_EIO_ok)
  have ka: "MSB KEEP_ALIVE = 0x01" "LSB KEEP_ALIVE = 0x2C"
    by (simp_all add: MSB_def LSB_def)
  show ?thesis
    using H V C W U P e len bound
    by (simp add: connect_payload_bytes_def ka)
qed

section \<open>The fixed header round trip\<close>

lemma not_bit_int_ge4: "0 \<le> x \<Longrightarrow> x < 16 \<Longrightarrow> 4 \<le> k \<Longrightarrow> \<not> bit x k" for x :: int
proof -
  assume "0 \<le> x" "x < 16" "4 \<le> k"
  have "(2::int) ^ 4 \<le> 2 ^ k" using \<open>4 \<le> k\<close> by (intro power_increasing) auto
  with \<open>x < 16\<close> have "x < 2 ^ k" by simp
  with \<open>0 \<le> x\<close> show ?thesis by (simp add: bit_iff_odd)
qed

lemma bit_xf [simp]: "bit (0xf :: u8) k \<longleftrightarrow> k < 4"
proof -
  have "(0xf :: u8) = mask 4" by (simp add: mask_eq_exp_minus_1)
  then show ?thesis by (simp only: bit_mask_iff possible_bit_word) auto
qed

lemma bit_int_15 [simp]: "bit (15 :: int) k \<longleftrightarrow> k < 4"
proof -
  have "(15 :: int) = mask 4" by (simp add: mask_eq_exp_minus_1)
  then show ?thesis by (simp only: bit_mask_iff possible_bit_int) auto
qed

lemma header_byte_type:
  assumes "0 \<le> type" "type < 16" "0 \<le> flags" "flags < 16"
  shows "uint (drop_bit 4 (word_of_int (push_bit 4 type OR flags) :: u8) AND 0xf) = type"
proof (rule bit_eqI)
  fix k
  have "bit type k \<Longrightarrow> k < 4" using not_bit_int_ge4 [OF assms(1,2), of k] by (cases "k < 4") auto
  moreover have "\<not> bit flags (4 + k)" using not_bit_int_ge4 [OF assms(3,4), of "4 + k"] by simp
  ultimately show "bit (uint (drop_bit 4 (word_of_int (push_bit 4 type OR flags) :: u8) AND 0xf)) k = bit type k"
    by (auto simp: bit_uint_iff bit_and_iff bit_drop_bit_eq bit_word_of_int_iff bit_or_iff bit_push_bit_iff)
qed

lemma header_byte_flags:
  assumes "0 \<le> type" "0 \<le> flags" "flags < 16"
  shows "uint ((word_of_int (push_bit 4 type OR flags) :: u8) AND 0xf) = flags"
proof (rule bit_eqI)
  fix k
  have "bit flags k \<Longrightarrow> k < 4" using not_bit_int_ge4 [OF assms(2,3), of k] by (cases "k < 4") auto
  then show "bit (uint ((word_of_int (push_bit 4 type OR flags) :: u8) AND 0xf)) k = bit flags k"
    by (auto simp: bit_uint_iff bit_and_iff bit_word_of_int_iff bit_or_iff bit_push_bit_iff)
qed

lemma read_fixed_header_roundtrip:
  assumes "0 \<le> type" "type < 16" "0 \<le> flags" "flags < 16" "sz < 2097152"
    and "transport_in self = fixed_header_bytes type flags sz @ rest"
  shows "read_fixed_header self = (0, (type, flags, sz), self\<lparr>transport_in := rest\<rparr>)"
proof -
  have "length (remaining_length_bytes sz) \<le> 3"
    using assms(5) by (intro length_rlb) simp_all
  then have "(128::nat) ^ length (remaining_length_bytes sz) \<le> 128 ^ 3"
    by (intro power_increasing) simp_all
  then have "read_size_loop (remaining_length_bytes sz @ rest) 0 1 = (0, 0 + sz * 1, rest)"
    by (intro read_size_loop_rlb) simp
  then show ?thesis
    using assms(1-4)
    by (simp add: read_fixed_header_def assms(6) fixed_header_bytes_def header_byte_type header_byte_flags)
qed


lemma length_rlb_lower: "128 ^ k \<le> n \<Longrightarrow> k < length (remaining_length_bytes n)"
proof (induction n arbitrary: k rule: remaining_length_bytes.induct)
  case (1 n)
  show ?case
  proof (cases k)
    case 0
    then show ?thesis using length_rlb_pos [of n] by simp
  next
    case (Suc j)
    with "1.prems" have "128 ^ j * 128 \<le> n" by simp
    then have j: "128 ^ j \<le> n div 128"
      by (simp add: less_eq_div_iff_mult_less_eq)
    then have pos: "n div 128 > 0"
      by (metis gr0I not_one_le_zero one_le_numeral one_le_power order_trans)
    then have rl: "remaining_length_bytes n = (word_of_nat (n mod 128) OR 0x80) # remaining_length_bytes (n div 128)"
      by (subst remaining_length_bytes.simps) simp
    from "1.IH" [OF pos j] rl Suc show ?thesis by simp
  qed
qed

lemma read_size_loop_rejects:
  "128 ^ 3 < m * 128 ^ length (remaining_length_bytes n) \<Longrightarrow>
   fst (read_size_loop (remaining_length_bytes n @ rest) acc m) = - 1"
proof (induction n arbitrary: acc m rule: remaining_length_bytes.induct)
  case (1 n)
  show ?case
  proof (cases "n div 128 > 0")
    case True
    then have rl: "remaining_length_bytes n = (word_of_nat (n mod 128) OR 0x80) # remaining_length_bytes (n div 128)"
      by (subst remaining_length_bytes.simps) simp
    have "128 ^ 3 < m * 128 * 128 ^ length (remaining_length_bytes (n div 128))"
      using "1.prems" rl by (simp add: mult.assoc)
    from "1.IH" [OF True this] rl show ?thesis by simp
  next
    case False
    then have rl: "remaining_length_bytes n = [word_of_nat (n mod 128)]"
      by (subst remaining_length_bytes.simps) simp
    with "1.prems" show ?thesis by simp
  qed
qed

lemma read_fixed_header_rejects:
  assumes "2097152 \<le> sz" and "transport_in self = fixed_header_bytes type flags sz @ rest"
  shows "fst (read_fixed_header self) = - 1"
proof -
  from assms(1) have "3 < length (remaining_length_bytes sz)"
    by (intro length_rlb_lower) simp
  then have "(128::nat) ^ 4 \<le> 128 ^ length (remaining_length_bytes sz)"
    by (intro power_increasing) simp_all
  then have "(128::nat) ^ 3 < 1 * 128 ^ length (remaining_length_bytes sz)"
    by simp
  from read_size_loop_rejects [OF this, of rest 0] show ?thesis
    by (auto simp: read_fixed_header_def assms(2) fixed_header_bytes_def split: prod.splits)
qed

text \<open>
  C4. The header \<open>write_fixed_header\<close> writes for type 3, flags 0 and remaining length
  2097152 is \<open>30 80 80 80 01\<close>. \<open>read_fixed_header\<close> reads all five bytes, adds up the
  size 2097152, and returns -1: it multiplies the multiplier before it compares it with
  128 * 128 * 128, so the fourth length byte always fails the comparison. By
  \<open>read_fixed_header_roundtrip\<close> the round trip holds for every size below 2097152; by
  \<open>read_fixed_header_rejects\<close> it fails for every size from 2097152 on.
\<close>

theorem fixed_header_roundtrip_fails:
  "write_fixed_header (fresh_client []) MQTT_PUBLISH 0 2097152 =
     Some (0, emit (fresh_client []) [0x30, 0x80, 0x80, 0x80, 0x01]) \<and>
   read_fixed_header (fresh_client [0x30, 0x80, 0x80, 0x80, 0x01]) =
     (- 1, (MQTT_PUBLISH, 0, 2097152), fresh_client [])"
proof -
  have r: "remaining_length_bytes 2097152 = [0x80, 0x80, 0x80, 0x01]"
    by (simp add: remaining_length_bytes.simps)
  have "write_fixed_header (fresh_client []) MQTT_PUBLISH 0 2097152 =
     Some (0, emit (fresh_client []) [0x30, 0x80, 0x80, 0x80, 0x01])"
    by (simp add: write_fixed_header_eq fixed_header_bytes_def r fresh_client_def mqtt_client_init_def)
  moreover have "read_fixed_header (fresh_client [0x30, 0x80, 0x80, 0x80, 0x01]) =
     (- 1, (MQTT_PUBLISH, 0, 2097152), fresh_client [])"
    by (simp add: read_fixed_header_def fresh_client_def mqtt_client_init_def)
  ultimately show ?thesis by simp
qed

section \<open>The connect packet\<close>

lemma handle_control_connect_ok:
  assumes "handle_control_connect self = Some (0, self')"
    and "control_in self = OptionsPtr options_p # q"
  shows "self' = (emit (self\<lparr>control_in := q\<rparr>)
                   (fixed_header_bytes MQTT_CONNECT 0
                      (12 + connect_payload_length (options_in_use options_p)) @
                    [0x00, 0x04, 0x4D, 0x51, 0x54, 0x54, 0x04,
                     connect_flags (options_in_use options_p), 0x01, 0x2C,
                     MSB (connect_payload_length (options_in_use options_p)),
                     LSB (connect_payload_length (options_in_use options_p))] @
                    connect_payload_bytes (options_in_use options_p)))
                 \<lparr>message_type := CONTROL_CONNECT\<rparr> \<and>
         length (connect_payload_bytes (options_in_use options_p)) =
           connect_payload_length (options_in_use options_p) \<and>
         connect_payload_length (options_in_use options_p) \<le> 5 * 65537"
proof -
  from assms have "connect_options (self\<lparr>control_in := q\<rparr>)
      (case options_p of None \<Rightarrow> default_options | Some options \<Rightarrow> options) = Some (0, self')"
    by (simp add: handle_control_connect_def)
  from connect_options_ok [OF this] show ?thesis
    by (simp add: options_in_use_def Let_def)
qed

lemma string_in_bounds_default_client_id [simp]: "string_in_bounds default_client_id"
  by (simp add: string_in_bounds_def default_client_id_def)

lemma default_client_id_eq:
  "default_client_id =
     \<lparr>buf_p = Some [0x73, 0x69, 0x6D, 0x62, 0x61, 0x5F, 0x6D, 0x71, 0x74, 0x74], size_s = 10\<rparr>"
  by (simp add: default_client_id_def)

lemma connect_options_plain:
  assumes "size_s (client_id options) = 0" "size_s (will_topic options) = 0"
    "size_s (will_payload options) = 0" "size_s (user_name options) = 0"
    "size_s (password options) = 0" "26 \<le> room (transport_out self)"
  shows "connect_options self options =
     Some (0, (emit self
                 [0x10, 0x18, 0x00, 0x04, 0x4D, 0x51, 0x54, 0x54, 0x04, 0x02, 0x01, 0x2C,
                  0x00, 0x0C, 0x00, 0x0A,
                  0x73, 0x69, 0x6D, 0x62, 0x61, 0x5F, 0x6D, 0x71, 0x74, 0x74])
              \<lparr>message_type := CONTROL_CONNECT\<rparr>)"
proof -
  let ?o = "options\<lparr>client_id := default_client_id\<rparr>"
  have fl: "connect_flags ?o = 0x02"
    using assms by (simp add: connect_flags_def)
  have pl: "connect_payload_length ?o = 12"
    using assms by (simp add: connect_payload_length_def default_client_id_eq)
  have h: "write_fixed_header self MQTT_CONNECT 0 (size_t_wrap 24) =
      Some (0, emit self [0x10, 0x18])"
    using assms(6) by (simp add: size_t_wrap_def write_fixed_header_eq fixed_header_bytes_def)
  have v: "write_or_EIO (emit self [0x10, 0x18])
             [0, 4, 0x4D, 0x51, 0x54, 0x54, 4, 0x02, MSB KEEP_ALIVE, LSB KEEP_ALIVE, MSB 12, LSB 12] 12 =
      Some (0, emit self [0x10, 0x18, 0x00, 0x04, 0x4D, 0x51, 0x54, 0x54, 0x04, 0x02, 0x01, 0x2C,
                  0x00, 0x0C])"
  proof -
    from assms(6) have "12 \<le> room (transport_out self) - 2" by simp
    then show ?thesis by (simp add: write_or_EIO_eq MSB_def LSB_def)
  qed
  have c: "write_mqtt_string (emit self [0x10, 0x18, 0x00, 0x04, 0x4D, 0x51, 0x54, 0x54, 0x04,
                  0x02, 0x01, 0x2C, 0x00, 0x0C]) default_client_id =
      Some (0, emit self [0x10, 0x18, 0x00, 0x04, 0x4D, 0x51, 0x54, 0x54, 0x04, 0x02, 0x01, 0x2C,
                  0x00, 0x0C, 0x00, 0x0A,
                  0x73, 0x69, 0x6D, 0x62, 0x61, 0x5F, 0x6D, 0x71, 0x74, 0x74])"
  proof -
    from assms(6) have "12 \<le> room (transport_out self) - 14" by simp
    then show ?thesis
      by (simp add: write_mqtt_string_eq) (simp add: default_client_id_eq mqtt_string_bytes_def MSB_def LSB_def)
  qed
  show ?thesis
    using assms(1-5)
    by (simp add: connect_options_def Let_def fl pl h v c)
qed

lemma handle_control_connect_plain:
  assumes "plain_options options_p" "26 \<le> room (transport_out self)"
    "control_in self = OptionsPtr options_p # q"
  shows "handle_control_connect self =
     Some (0, (emit (self\<lparr>control_in := q\<rparr>)
                 [0x10, 0x18, 0x00, 0x04, 0x4D, 0x51, 0x54, 0x54, 0x04, 0x02, 0x01, 0x2C,
                  0x00, 0x0C, 0x00, 0x0A,
                  0x73, 0x69, 0x6D, 0x62, 0x61, 0x5F, 0x6D, 0x71, 0x74, 0x74])
              \<lparr>message_type := CONTROL_CONNECT\<rparr>)"
proof (cases options_p)
  case None
  with assms show ?thesis
    by (simp add: handle_control_connect_def connect_options_plain default_options_def null_string_def)
next
  case (Some options)
  with assms show ?thesis
    by (simp add: handle_control_connect_def connect_options_plain plain_options_def)
qed


lemma plain_in_use:
  assumes "plain_options options_p"
  shows "connect_payload_length (options_in_use options_p) = 12"
    and "connect_flags (options_in_use options_p) = 0x02"
    and "connect_payload_bytes (options_in_use options_p) =
           [0x00, 0x0A, 0x73, 0x69, 0x6D, 0x62, 0x61, 0x5F, 0x6D, 0x71, 0x74, 0x74]"
proof -
  obtain options where o: "options_in_use options_p = options\<lparr>client_id := default_client_id\<rparr>"
    and z: "size_s (will_topic options) = 0" "size_s (will_payload options) = 0"
      "size_s (user_name options) = 0" "size_s (password options) = 0"
  proof (cases options_p)
    case None
    show ?thesis
      by (rule that [of default_options])
         (simp_all add: None options_in_use_def default_options_def null_string_def)
  next
    case (Some options)
    show ?thesis
      using assms by (intro that [of options]) (simp_all add: Some options_in_use_def plain_options_def)
  qed
  show "connect_payload_length (options_in_use options_p) = 12"
    by (simp add: o z connect_payload_length_def default_client_id_eq)
  show "connect_flags (options_in_use options_p) = 0x02"
    by (simp add: o z connect_flags_def)
  show "connect_payload_bytes (options_in_use options_p) =
           [0x00, 0x0A, 0x73, 0x69, 0x6D, 0x62, 0x61, 0x5F, 0x6D, 0x71, 0x74, 0x74]"
    by (simp add: o z connect_payload_bytes_def mqtt_string_bytes_def default_client_id_eq
        MSB_def LSB_def)
qed

lemma fresh_client_fields [simp]:
  "state (fresh_client inp) = mqtt_client_state_disconnected_t"
  "message_type (fresh_client inp) = CONTROL_NONE"
  "transport_in (fresh_client inp) = inp"
  "transport_out (fresh_client inp) = \<lparr>sent = [], room = 4096\<rparr>"
  "control_in (fresh_client inp) = []"
  "control_out (fresh_client inp) = []"
  "on_publish_calls (fresh_client inp) = []"
  "on_error_calls (fresh_client inp) = []"
  by (simp_all add: fresh_client_def mqtt_client_init_def)

text \<open>
  C2, as the code has it. When \<open>handle_control_connect\<close> handles a connect request and
  returns 0, it has written: the fixed header of type 1 and flags 0 whose remaining
  length is 12 plus the payload length; twelve bytes, namely \<open>00 04 'M' 'Q' 'T' 'T' 04\<close>,
  the connect flags, \<open>01 2C\<close> for the keep-alive of 300, and the payload length as two
  bytes, most significant first; and the payload, whose length is the payload length:
  the client identifier, the will topic and payload, the user name and the password,
  each where in use and each with its two-byte length. \<open>read_fixed_header\<close> reads that
  header back as type 1, flags 0, remaining length 12 plus the payload length.
\<close>

theorem connect_packet_layout:
  assumes "handle_control_connect self = Some (0, self')"
    and "control_in self = OptionsPtr options_p # q"
  shows "sent (transport_out self') =
           sent (transport_out self) @
           fixed_header_bytes MQTT_CONNECT 0
             (12 + connect_payload_length (options_in_use options_p)) @
           [0x00, 0x04, 0x4D, 0x51, 0x54, 0x54, 0x04,
            connect_flags (options_in_use options_p), 0x01, 0x2C,
            MSB (connect_payload_length (options_in_use options_p)),
            LSB (connect_payload_length (options_in_use options_p))] @
           connect_payload_bytes (options_in_use options_p) \<and>
         length (connect_payload_bytes (options_in_use options_p)) =
           connect_payload_length (options_in_use options_p) \<and>
         read_fixed_header
           (broker\<lparr>transport_in :=
              fixed_header_bytes MQTT_CONNECT 0
                (12 + connect_payload_length (options_in_use options_p)) @ rest\<rparr>) =
           (0, (MQTT_CONNECT, 0, 12 + connect_payload_length (options_in_use options_p)),
            broker\<lparr>transport_in := rest\<rparr>)"
proof -
  note ok = handle_control_connect_ok [OF assms]
  then have "12 + connect_payload_length (options_in_use options_p) < 2097152" by simp
  then have "read_fixed_header
           (broker\<lparr>transport_in :=
              fixed_header_bytes MQTT_CONNECT 0
                (12 + connect_payload_length (options_in_use options_p)) @ rest\<rparr>) =
           (0, (MQTT_CONNECT, 0, 12 + connect_payload_length (options_in_use options_p)),
            broker\<lparr>transport_in := rest\<rparr>)"
    by (subst read_fixed_header_roundtrip [where rest = rest]) simp_all
  with ok show ?thesis by simp
qed

text \<open>The null options pointer: remaining length 24, payload length 12.\<close>

theorem connect_packet_layout_witness:
  "control_in ((fresh_client [])\<lparr>control_in := [OptionsPtr None]\<rparr>) = OptionsPtr None # [] \<and>
   handle_control_connect ((fresh_client [])\<lparr>control_in := [OptionsPtr None]\<rparr>) =
     Some (0, (emit ((fresh_client [])\<lparr>control_in := []\<rparr>)
       [0x10, 0x18, 0x00, 0x04, 0x4D, 0x51, 0x54, 0x54, 0x04, 0x02, 0x01, 0x2C,
        0x00, 0x0C, 0x00, 0x0A, 0x73, 0x69, 0x6D, 0x62, 0x61, 0x5F, 0x6D, 0x71, 0x74, 0x74])
       \<lparr>message_type := CONTROL_CONNECT\<rparr>) \<and>
   sent (transport_out ((emit ((fresh_client [])\<lparr>control_in := []\<rparr>)
       [0x10, 0x18, 0x00, 0x04, 0x4D, 0x51, 0x54, 0x54, 0x04, 0x02, 0x01, 0x2C,
        0x00, 0x0C, 0x00, 0x0A, 0x73, 0x69, 0x6D, 0x62, 0x61, 0x5F, 0x6D, 0x71, 0x74, 0x74])
       \<lparr>message_type := CONTROL_CONNECT\<rparr>)) =
     [0x10, 0x18, 0x00, 0x04, 0x4D, 0x51, 0x54, 0x54, 0x04, 0x02, 0x01, 0x2C,
        0x00, 0x0C, 0x00, 0x0A, 0x73, 0x69, 0x6D, 0x62, 0x61, 0x5F, 0x6D, 0x71, 0x74, 0x74] \<and>
   read_fixed_header ((fresh_client [])\<lparr>transport_in :=
       [0x10, 0x18, 0x00, 0x04, 0x4D, 0x51, 0x54, 0x54, 0x04, 0x02, 0x01, 0x2C,
        0x00, 0x0C, 0x00, 0x0A, 0x73, 0x69, 0x6D, 0x62, 0x61, 0x5F, 0x6D, 0x71, 0x74, 0x74]\<rparr>) =
     (0, (MQTT_CONNECT, 0, 24),
      (fresh_client [])\<lparr>transport_in :=
        [0x00, 0x04, 0x4D, 0x51, 0x54, 0x54, 0x04, 0x02, 0x01, 0x2C, 0x00, 0x0C, 0x00, 0x0A,
         0x73, 0x69, 0x6D, 0x62, 0x61, 0x5F, 0x6D, 0x71, 0x74, 0x74]\<rparr>)"
proof -
  let ?c = "(fresh_client [])\<lparr>control_in := [OptionsPtr None]\<rparr>"
  have ci: "control_in ?c = OptionsPtr None # []" by simp
  have hc: "handle_control_connect ?c =
     Some (0, (emit (?c\<lparr>control_in := []\<rparr>)
       [0x10, 0x18, 0x00, 0x04, 0x4D, 0x51, 0x54, 0x54, 0x04, 0x02, 0x01, 0x2C,
        0x00, 0x0C, 0x00, 0x0A, 0x73, 0x69, 0x6D, 0x62, 0x61, 0x5F, 0x6D, 0x71, 0x74, 0x74])
       \<lparr>message_type := CONTROL_CONNECT\<rparr>)"
    by (rule handle_control_connect_plain) (simp_all add: plain_options_def)
  have p: "plain_options None" by (simp add: plain_options_def)
  from connect_packet_layout [OF hc ci, where broker = "fresh_client []" and rest =
      "[0x00, 0x04, 0x4D, 0x51, 0x54, 0x54, 0x04, 0x02, 0x01, 0x2C, 0x00, 0x0C, 0x00, 0x0A,
         0x73, 0x69, 0x6D, 0x62, 0x61, 0x5F, 0x6D, 0x71, 0x74, 0x74]"] hc
  show ?thesis
    by (simp add: plain_in_use [OF p] fixed_header_bytes_def MSB_def LSB_def)
qed

text \<open>
  With the null options pointer the packet declares the remaining length 24, and the
  payload is the client identifier with its length prefix, 12 bytes: the remaining
  length is not 10 plus the payload length.
\<close>

theorem connect_remaining_length_counterexample:
  "connect_wire None = Some (0,
       [0x10, 0x18, 0x00, 0x04, 0x4D, 0x51, 0x54, 0x54, 0x04, 0x02, 0x01, 0x2C,
        0x00, 0x0C, 0x00, 0x0A, 0x73, 0x69, 0x6D, 0x62, 0x61, 0x5F, 0x6D, 0x71, 0x74, 0x74]) \<and>
   read_fixed_header (fresh_client
       [0x10, 0x18, 0x00, 0x04, 0x4D, 0x51, 0x54, 0x54, 0x04, 0x02, 0x01, 0x2C,
        0x00, 0x0C, 0x00, 0x0A, 0x73, 0x69, 0x6D, 0x62, 0x61, 0x5F, 0x6D, 0x71, 0x74, 0x74]) =
     (0, (MQTT_CONNECT, 0, 24),
      fresh_client
        [0x00, 0x04, 0x4D, 0x51, 0x54, 0x54, 0x04, 0x02, 0x01, 0x2C, 0x00, 0x0C, 0x00, 0x0A,
         0x73, 0x69, 0x6D, 0x62, 0x61, 0x5F, 0x6D, 0x71, 0x74, 0x74]) \<and>
   connect_payload_length (options_in_use None) = 12 \<and>
   (24 :: nat) \<noteq> 10 + connect_payload_length (options_in_use None)"
proof -
  let ?c = "(fresh_client [])\<lparr>control_in := [OptionsPtr None]\<rparr>"
  have p: "plain_options None" by (simp add: plain_options_def)
  have hc: "handle_control_connect ?c =
     Some (0, (emit (?c\<lparr>control_in := []\<rparr>)
       [0x10, 0x18, 0x00, 0x04, 0x4D, 0x51, 0x54, 0x54, 0x04, 0x02, 0x01, 0x2C,
        0x00, 0x0C, 0x00, 0x0A, 0x73, 0x69, 0x6D, 0x62, 0x61, 0x5F, 0x6D, 0x71, 0x74, 0x74])
       \<lparr>message_type := CONTROL_CONNECT\<rparr>)"
    by (rule handle_control_connect_plain) (simp_all add: plain_options_def)
  have rd: "read_fixed_header (fresh_client
       [0x10, 0x18, 0x00, 0x04, 0x4D, 0x51, 0x54, 0x54, 0x04, 0x02, 0x01, 0x2C,
        0x00, 0x0C, 0x00, 0x0A, 0x73, 0x69, 0x6D, 0x62, 0x61, 0x5F, 0x6D, 0x71, 0x74, 0x74]) =
     (0, (MQTT_CONNECT, 0, 24),
      fresh_client
        [0x00, 0x04, 0x4D, 0x51, 0x54, 0x54, 0x04, 0x02, 0x01, 0x2C, 0x00, 0x0C, 0x00, 0x0A,
         0x73, 0x69, 0x6D, 0x62, 0x61, 0x5F, 0x6D, 0x71, 0x74, 0x74])"
    by (simp add: read_fixed_header_def fresh_client_def mqtt_client_init_def)
  show ?thesis
    by (simp add: connect_wire_def hc rd plain_in_use [OF p])
qed

section \<open>Connect and connack\<close>

lemma main_step_connect_plain:
  assumes "plain_options options_p" "state self = mqtt_client_state_disconnected_t"
    "control_in self = []" "26 \<le> room (transport_out self)"
  shows "mqtt_client_main_step control_in_ready (mqtt_client_connect self options_p) =
     Some ((emit self [0x10, 0x18, 0x00, 0x04, 0x4D, 0x51, 0x54, 0x54, 0x04, 0x02, 0x01, 0x2C,
        0x00, 0x0C, 0x00, 0x0A, 0x73, 0x69, 0x6D, 0x62, 0x61, 0x5F, 0x6D, 0x71, 0x74, 0x74])
       \<lparr>message_type := CONTROL_CONNECT\<rparr>)"
proof -
  have same: "self\<lparr>control_in := []\<rparr> = self" using assms(3) by simp
  have "handle_control_connect (self\<lparr>control_in := [OptionsPtr options_p]\<rparr>) =
     Some (0, (emit (self\<lparr>control_in := [OptionsPtr options_p]\<rparr>\<lparr>control_in := []\<rparr>)
               [0x10, 0x18, 0x00, 0x04, 0x4D, 0x51, 0x54, 0x54, 0x04, 0x02, 0x01, 0x2C,
        0x00, 0x0C, 0x00, 0x0A, 0x73, 0x69, 0x6D, 0x62, 0x61, 0x5F, 0x6D, 0x71, 0x74, 0x74])
       \<lparr>message_type := CONTROL_CONNECT\<rparr>)"
    using assms by (intro handle_control_connect_plain) simp_all
  then show ?thesis
    using assms(2,3)
    by (simp add: mqtt_client_main_step_def read_control_message_def mqtt_client_connect_def
        control_routine_request_def Let_def same)
qed

lemma main_step_connack:
  assumes "message_type self = CONTROL_CONNECT" "transport_in self = [0x20, 0x02, 0x00, 0x00]"
  shows "mqtt_client_main_step transport_in_ready self =
     Some (self\<lparr>message_type := CONTROL_NONE, transport_in := [],
                state := mqtt_client_state_connected_t,
                control_out := control_out self @ [0]\<rparr>)"
  using assms
  by (simp add: mqtt_client_main_step_def read_server_message_def read_fixed_header_def
      handle_response_connack_def transport_read_def chan_read_def post_result_def Let_def)

text \<open>
  C3, as the code has it. A disconnected client with nothing on its control channels and
  room for 26 bytes on the transport gets a connect request with no client identifier,
  will, user name or password. The event loop writes exactly
  \<open>10 18 00 04 'M' 'Q' 'T' 'T' 04 02 01 2C 00 0C 00 0A 's' 'i' 'm' 'b' 'a' '_' 'm' 'q' 't' 't'\<close>
  and the caller stays blocked. When the broker then sends \<open>20 02 00 00\<close>, the loop
  posts 0, which the connect entry point returns; the state is connected and on-error
  was not called.
\<close>

theorem connect_connack_scenario:
  assumes "plain_options options_p"
    and "state self = mqtt_client_state_disconnected_t"
    and "control_in self = []" and "control_out self = []"
    and "26 \<le> room (transport_out self)"
  shows "\<exists>c2 c4.
     mqtt_client_main_step control_in_ready (mqtt_client_connect self options_p) = Some c2 \<and>
     sent (transport_out c2) = sent (transport_out self) @
       [0x10, 0x18, 0x00, 0x04, 0x4D, 0x51, 0x54, 0x54, 0x04, 0x02, 0x01, 0x2C,
        0x00, 0x0C, 0x00, 0x0A, 0x73, 0x69, 0x6D, 0x62, 0x61, 0x5F, 0x6D, 0x71, 0x74, 0x74] \<and>
     control_routine_reply c2 = None \<and>
     mqtt_client_main_step transport_in_ready (c2\<lparr>transport_in := [0x20, 0x02, 0x00, 0x00]\<rparr>) =
       Some c4 \<and>
     control_routine_reply c4 = Some (0, c4\<lparr>control_out := []\<rparr>) \<and>
     state c4 = mqtt_client_state_connected_t \<and>
     on_error_calls c4 = on_error_calls self"
proof -
  let ?c2 = "(emit self [0x10, 0x18, 0x00, 0x04, 0x4D, 0x51, 0x54, 0x54, 0x04, 0x02, 0x01, 0x2C,
        0x00, 0x0C, 0x00, 0x0A, 0x73, 0x69, 0x6D, 0x62, 0x61, 0x5F, 0x6D, 0x71, 0x74, 0x74])
       \<lparr>message_type := CONTROL_CONNECT\<rparr>"
  let ?c3 = "?c2\<lparr>transport_in := [0x20, 0x02, 0x00, 0x00]\<rparr>"
  let ?c4 = "?c3\<lparr>message_type := CONTROL_NONE, transport_in := [],
                state := mqtt_client_state_connected_t,
                control_out := control_out ?c3 @ [0]\<rparr>"
  have 1: "mqtt_client_main_step control_in_ready (mqtt_client_connect self options_p) = Some ?c2"
    using assms by (intro main_step_connect_plain)
  have 2: "mqtt_client_main_step transport_in_ready ?c3 = Some ?c4"
    by (rule main_step_connack) simp_all
  have 3: "control_routine_reply ?c2 = None"
    using assms(4) by (simp add: control_routine_reply_def)
  have 4: "control_routine_reply ?c4 = Some (0, ?c4\<lparr>control_out := []\<rparr>)"
    using assms(4) by (simp add: control_routine_reply_def)
  have 5: "sent (transport_out ?c2) = sent (transport_out self) @
       [0x10, 0x18, 0x00, 0x04, 0x4D, 0x51, 0x54, 0x54, 0x04, 0x02, 0x01, 0x2C,
        0x00, 0x0C, 0x00, 0x0A, 0x73, 0x69, 0x6D, 0x62, 0x61, 0x5F, 0x6D, 0x71, 0x74, 0x74]" by simp
  have 6: "state ?c4 = mqtt_client_state_connected_t" "on_error_calls ?c4 = on_error_calls self"
    by (simp_all add: emit_def)
  from 1 2 3 4 5 6 show ?thesis by blast
qed

theorem connect_connack_scenario_witness:
  "plain_options None \<and>
   (\<exists>c2 c4.
     mqtt_client_main_step control_in_ready (mqtt_client_connect (fresh_client []) None) = Some c2 \<and>
     sent (transport_out c2) =
       [0x10, 0x18, 0x00, 0x04, 0x4D, 0x51, 0x54, 0x54, 0x04, 0x02, 0x01, 0x2C,
        0x00, 0x0C, 0x00, 0x0A, 0x73, 0x69, 0x6D, 0x62, 0x61, 0x5F, 0x6D, 0x71, 0x74, 0x74] \<and>
     control_routine_reply c2 = None \<and>
     mqtt_client_main_step transport_in_ready (c2\<lparr>transport_in := [0x20, 0x02, 0x00, 0x00]\<rparr>) =
       Some c4 \<and>
     control_routine_reply c4 = Some (0, c4\<lparr>control_out := []\<rparr>) \<and>
     state c4 = mqtt_client_state_connected_t)"
proof -
  have p: "plain_options None" by (simp add: plain_options_def)
  from connect_connack_scenario [OF p, of "fresh_client []"] p show ?thesis
    by simp blast
qed

text \<open>
  The bytes written differ from \<open>10 18 ... 01 2C 00 0A 00 0A 's' ...\<close>: the two bytes
  after the keep-alive are \<open>00 0C\<close>, the payload length 12.
\<close>

theorem connect_scenario_bytes_counterexample:
  "mqtt_client_main_step control_in_ready (mqtt_client_connect (fresh_client []) None) =
     Some ((emit (fresh_client [])
       [0x10, 0x18, 0x00, 0x04, 0x4D, 0x51, 0x54, 0x54, 0x04, 0x02, 0x01, 0x2C,
        0x00, 0x0C, 0x00, 0x0A, 0x73, 0x69, 0x6D, 0x62, 0x61, 0x5F, 0x6D, 0x71, 0x74, 0x74])
       \<lparr>message_type := CONTROL_CONNECT\<rparr>) \<and>
   sent (transport_out ((emit (fresh_client [])
       [0x10, 0x18, 0x00, 0x04, 0x4D, 0x51, 0x54, 0x54, 0x04, 0x02, 0x01, 0x2C,
        0x00, 0x0C, 0x00, 0x0A, 0x73, 0x69, 0x6D, 0x62, 0x61, 0x5F, 0x6D, 0x71, 0x74, 0x74])
       \<lparr>message_type := CONTROL_CONNECT\<rparr>)) \<noteq>
     [0x10, 0x18, 0x00, 0x04, 0x4D, 0x51, 0x54, 0x54, 0x04, 0x02, 0x01, 0x2C,
        0x00, 0x0A, 0x00, 0x0A, 0x73, 0x69, 0x6D, 0x62, 0x61, 0x5F, 0x6D, 0x71, 0x74, 0x74]"
proof -
  have "mqtt_client_main_step control_in_ready (mqtt_client_connect (fresh_client []) None) =
     Some ((emit (fresh_client [])
       [0x10, 0x18, 0x00, 0x04, 0x4D, 0x51, 0x54, 0x54, 0x04, 0x02, 0x01, 0x2C,
        0x00, 0x0C, 0x00, 0x0A, 0x73, 0x69, 0x6D, 0x62, 0x61, 0x5F, 0x6D, 0x71, 0x74, 0x74])
       \<lparr>message_type := CONTROL_CONNECT\<rparr>)"
    by (rule main_step_connect_plain) (simp_all add: plain_options_def)
  then show ?thesis by simp
qed

section \<open>The connection state\<close>

text \<open>
  C6. In every client that can arise, an iteration of the event loop either leaves the
  connection state as it is, or takes it from disconnected to connected, which happens
  only when the loop reads from the transport, a connect is in flight and the packet
  read is a connack of declared size 2 whose flags byte and return code are both 0, or
  takes it from connected to disconnected, which happens only when the loop reads the
  disconnect verb and has written the disconnect packet \<open>E0 00\<close>. The application
  entry points, on either side of their blocking point, leave the state alone.
\<close>

theorem state_changes_two_ways:
  assumes "reachable self" and "mqtt_client_main_step chan_p self = Some self'"
  shows "(state self' = state self
      \<or> (state self = mqtt_client_state_disconnected_t \<and>
          state self' = mqtt_client_state_connected_t \<and>
          chan_p = transport_in_ready \<and>
          message_type self = CONTROL_CONNECT \<and>
          (\<exists>flags self1 rest. read_fixed_header self = (0, (MQTT_CONNACK, flags, 2), self1) \<and>
              transport_in self1 = 0 # CONNECTION_ACCEPTED # rest))
      \<or> (state self = mqtt_client_state_connected_t \<and>
          state self' = mqtt_client_state_disconnected_t \<and>
          chan_p = control_in_ready \<and>
          (\<exists>q. control_in self = Verb CONTROL_DISCONNECT # q) \<and>
          sent (transport_out self') = sent (transport_out self) @ [0xE0, 0x00])) \<and>
     state (control_routine_request self type buf) = state self \<and>
     (case control_routine_reply self of
        None \<Rightarrow> True
      | Some (res, self2) \<Rightarrow> state self2 = state self)"
proof -
  have "state (control_routine_request self type buf) = state self"
    by (simp add: control_routine_request_def)
  moreover have "(case control_routine_reply self of
        None \<Rightarrow> True
      | Some (res, self2) \<Rightarrow> state self2 = state self)"
    by (simp add: control_routine_reply_def split: list.splits)
  ultimately show ?thesis
    using main_step_cases [OF assms(2) reachable_inflight [OF assms(1)]] by blast
qed

text \<open>
  The client that has sent its connect packet and finds \<open>20 02 00 00\<close> on the
  transport input is reachable, and the iteration that reads the connack takes it from
  disconnected to connected.
\<close>

theorem state_changes_two_ways_witness:
  "reachable ((emit (fresh_client [])
       [0x10, 0x18, 0x00, 0x04, 0x4D, 0x51, 0x54, 0x54, 0x04, 0x02, 0x01, 0x2C,
        0x00, 0x0C, 0x00, 0x0A, 0x73, 0x69, 0x6D, 0x62, 0x61, 0x5F, 0x6D, 0x71, 0x74, 0x74])
       \<lparr>message_type := CONTROL_CONNECT, transport_in := [0x20, 0x02, 0x00, 0x00]\<rparr>) \<and>
   mqtt_client_main_step transport_in_ready
     ((emit (fresh_client [])
       [0x10, 0x18, 0x00, 0x04, 0x4D, 0x51, 0x54, 0x54, 0x04, 0x02, 0x01, 0x2C,
        0x00, 0x0C, 0x00, 0x0A, 0x73, 0x69, 0x6D, 0x62, 0x61, 0x5F, 0x6D, 0x71, 0x74, 0x74])
       \<lparr>message_type := CONTROL_CONNECT, transport_in := [0x20, 0x02, 0x00, 0x00]\<rparr>) =
     Some ((emit (fresh_client [])
       [0x10, 0x18, 0x00, 0x04, 0x4D, 0x51, 0x54, 0x54, 0x04, 0x02, 0x01, 0x2C,
        0x00, 0x0C, 0x00, 0x0A, 0x73, 0x69, 0x6D, 0x62, 0x61, 0x5F, 0x6D, 0x71, 0x74, 0x74])
       \<lparr>message_type := CONTROL_NONE, transport_in := [],
         state := mqtt_client_state_connected_t, control_out := [0]\<rparr>) \<and>
   (\<exists>flags self1 rest.
      read_fixed_header
        ((emit (fresh_client [])
       [0x10, 0x18, 0x00, 0x04, 0x4D, 0x51, 0x54, 0x54, 0x04, 0x02, 0x01, 0x2C,
        0x00, 0x0C, 0x00, 0x0A, 0x73, 0x69, 0x6D, 0x62, 0x61, 0x5F, 0x6D, 0x71, 0x74, 0x74])
          \<lparr>message_type := CONTROL_CONNECT, transport_in := [0x20, 0x02, 0x00, 0x00]\<rparr>) =
        (0, (MQTT_CONNACK, flags, 2), self1) \<and>
      transport_in self1 = 0 # CONNECTION_ACCEPTED # rest)"
proof -
  let ?c2 = "(emit (fresh_client [])
       [0x10, 0x18, 0x00, 0x04, 0x4D, 0x51, 0x54, 0x54, 0x04, 0x02, 0x01, 0x2C,
        0x00, 0x0C, 0x00, 0x0A, 0x73, 0x69, 0x6D, 0x62, 0x61, 0x5F, 0x6D, 0x71, 0x74, 0x74])
       \<lparr>message_type := CONTROL_CONNECT\<rparr>"
  let ?c3 = "(emit (fresh_client [])
       [0x10, 0x18, 0x00, 0x04, 0x4D, 0x51, 0x54, 0x54, 0x04, 0x02, 0x01, 0x2C,
        0x00, 0x0C, 0x00, 0x0A, 0x73, 0x69, 0x6D, 0x62, 0x61, 0x5F, 0x6D, 0x71, 0x74, 0x74])
       \<lparr>message_type := CONTROL_CONNECT, transport_in := [0x20, 0x02, 0x00, 0x00]\<rparr>"
  let ?c4 = "(emit (fresh_client [])
       [0x10, 0x18, 0x00, 0x04, 0x4D, 0x51, 0x54, 0x54, 0x04, 0x02, 0x01, 0x2C,
        0x00, 0x0C, 0x00, 0x0A, 0x73, 0x69, 0x6D, 0x62, 0x61, 0x5F, 0x6D, 0x71, 0x74, 0x74])
       \<lparr>message_type := CONTROL_NONE, transport_in := [],
         state := mqtt_client_state_connected_t, control_out := [0]\<rparr>"
  have r0: "reachable (fresh_client [])"
    unfolding fresh_client_def by (rule reachable.init)
  have e1: "mqtt_client_connect (fresh_client []) None =
      (fresh_client [])\<lparr>transport_out := transport_out (fresh_client []), transport_in := [],
        control_in := [Verb CONTROL_CONNECT, OptionsPtr None], control_out := []\<rparr>"
    by (simp add: mqtt_client_connect_def control_routine_request_def fresh_client_def
        mqtt_client_init_def)
  have r1: "reachable (mqtt_client_connect (fresh_client []) None)"
    by (subst e1) (rule reachable.channels [OF r0])
  have s1: "mqtt_client_main_step control_in_ready (mqtt_client_connect (fresh_client []) None) =
      Some ?c2"
    by (rule main_step_connect_plain) (simp_all add: plain_options_def)
  have r2: "reachable ?c2" by (rule reachable.step [OF r1 s1])
  have e3: "?c3 = ?c2\<lparr>transport_out := transport_out ?c2, transport_in := [0x20, 0x02, 0x00, 0x00],
        control_in := control_in ?c2, control_out := control_out ?c2\<rparr>"
    by (simp add: emit_def fresh_client_def mqtt_client_init_def)
  have r3: "reachable ?c3"
    by (subst e3) (rule reachable.channels [OF r2])
  have "mqtt_client_main_step transport_in_ready ?c3 =
     Some (?c3\<lparr>message_type := CONTROL_NONE, transport_in := [],
                state := mqtt_client_state_connected_t,
                control_out := control_out ?c3 @ [0]\<rparr>)"
    by (rule main_step_connack) simp_all
  then have s2: "mqtt_client_main_step transport_in_ready ?c3 = Some ?c4"
    by (simp add: emit_def fresh_client_def mqtt_client_init_def)
  have ne: "state ?c4 \<noteq> state ?c3" "state ?c3 \<noteq> mqtt_client_state_connected_t"
    by simp_all
  from state_changes_two_ways [OF r3 s2] ne r3 s2 show ?thesis
    by blast
qed

section \<open>Results of the request handlers\<close>

lemma read_control_message_result:
  "read_control_message self = Some (r, s') \<Longrightarrow> r = 0 \<or> r = - 1 \<and> control_in self = [] \<and> s' = self"
  by (auto simp: read_control_message_def Let_def split: list.splits control_item.splits option.splits)

lemma server_error_reaches_on_error:
  assumes "read_server_message self = Some (r, s1)" "r \<noteq> 0"
  shows "mqtt_client_main_step transport_in_ready self =
           Some (s1\<lparr>on_error_calls := on_error_calls s1 @ [r]\<rparr>)"
  using assms by (simp add: mqtt_client_main_step_def)

text \<open>
  C1. A connect request whose will has a topic and no payload: \<open>handle_control_connect\<close>
  returns \<open>-EINVAL\<close> and writes nothing. The iteration of the event loop that handles
  the request leaves the client as \<open>mqtt_client_init\<close> made it: on-error has not been
  called, and there is no result on the outbound control channel for the caller to
  read. By \<open>read_control_message_result\<close> this is so for every request handler, since
  \<open>read_control_message\<close> returns 0 whatever the handler returned; only the result of
  the disconnect handler is posted. By \<open>server_error_reaches_on_error\<close> every non-zero
  result of \<open>read_server_message\<close> does reach on-error.
\<close>

theorem connect_error_is_dropped:
  "handle_control_connect
     ((fresh_client [])\<lparr>control_in :=
        [OptionsPtr (Some (default_options\<lparr>will_topic := \<lparr>buf_p = Some [0x61], size_s = 1\<rparr>\<rparr>))]\<rparr>) =
     Some (- EINVAL, fresh_client []) \<and>
   mqtt_client_main_step control_in_ready
     (mqtt_client_connect (fresh_client [])
        (Some (default_options\<lparr>will_topic := \<lparr>buf_p = Some [0x61], size_s = 1\<rparr>\<rparr>))) =
     Some (fresh_client []) \<and>
   on_error_calls (fresh_client []) = [] \<and>
   control_routine_reply (fresh_client []) = None"
proof -
  have same: "(fresh_client [])\<lparr>control_in := []\<rparr> = fresh_client []"
    by (simp add: fresh_client_def mqtt_client_init_def)
  have hc: "handle_control_connect
     ((fresh_client [])\<lparr>control_in :=
        [OptionsPtr (Some (default_options\<lparr>will_topic := \<lparr>buf_p = Some [0x61], size_s = 1\<rparr>\<rparr>))]\<rparr>) =
     Some (- EINVAL, fresh_client [])"
    by (simp add: handle_control_connect_def connect_options_def default_options_def
        null_string_def same)
  then show ?thesis
    by (simp add: mqtt_client_main_step_def read_control_message_def mqtt_client_connect_def
        control_routine_request_def control_routine_reply_def Let_def)
qed

section \<open>The publish packet\<close>

lemma emit_nothing [simp]: "emit self [] = self"
  by (simp add: emit_def)

lemma write_mem_or_EIO_ok:
  assumes "write_mem_or_EIO self (buf_p s) (size_s s) = Some (0, s')"
  shows "s' = emit self (string_data s) \<and> length (string_data s) = size_s s"
proof (cases "buf_p s")
  case None
  with assms show ?thesis
    by (auto simp: write_mem_or_EIO_def deref_def string_data_def write_or_EIO_ok split: if_splits)
next
  case (Some b)
  with assms show ?thesis
    by (auto simp: write_mem_or_EIO_def deref_def string_data_def write_or_EIO_ok split: if_splits)
qed

lemma publish_message_ok:
  assumes ok: "publish_message self m = Some (0, self')"
    and t: "size_s (topic m) \<le> 65535" and p: "size_s (payload m) < 268435456"
  shows "self' =
     (emit self
        (fixed_header_bytes MQTT_PUBLISH (push_bit 1 (qos_int (qos m)))
           (size_s (topic m) + 2 + (if qos_int (qos m) > 0 then 2 else 0) + size_s (payload m)) @
         [0x00, word_of_nat (size_s (topic m))] @ string_data (topic m) @
         (if qos_int (qos m) > 0 then [0x00, 0x01] else []) @
         string_data (payload m)))\<lparr>message_type := CONTROL_PUBLISH\<rparr>"
proof -
  let ?sz = "size_s (topic m) + 2 + (if qos_int (qos m) > 0 then 2 else 0) + size_s (payload m)"
  have wrap: "(if qos_int (qos m) > 0
               then size_t_wrap
                      (int (size_t_wrap (int (size_s (topic m)) + int (size_s (payload m)) + 2)) + 2)
               else size_t_wrap (int (size_s (topic m)) + int (size_s (payload m)) + 2)) = ?sz"
    using t p by (simp add: size_t_wrap_def nat_add_distrib)
  have chain:
    "and_then (write_fixed_header self MQTT_PUBLISH (push_bit 1 (qos_int (qos m))) ?sz)
          (\<lambda>self1.
        and_then (write_or_EIO self1 [0, word_of_nat (size_s (topic m))] 2) (\<lambda>self2.
        and_then (write_mem_or_EIO self2 (buf_p (topic m)) (size_s (topic m)))
          (\<lambda>self3.
        and_then (if qos_int (qos m) > 0 then write_or_EIO self3 [0, 1] 2
                  else Some (0, self3)) (\<lambda>self4.
        and_then (if size_s (payload m) > 0
                  then write_mem_or_EIO self4 (buf_p (payload m)) (size_s (payload m))
                  else Some (0, self4)) (\<lambda>self5.
        Some (0, self5\<lparr>message_type := CONTROL_PUBLISH\<rparr>)))))) = Some (0, self')"
    using ok unfolding publish_message_def Let_def wrap .
  from chain [unfolded and_then_ok]
  obtain s1 s2 s3 s4 s5 where
    h: "write_fixed_header self MQTT_PUBLISH (push_bit 1 (qos_int (qos m))) ?sz = Some (0, s1)" and
    v: "write_or_EIO s1 [0, word_of_nat (size_s (topic m))] 2 = Some (0, s2)" and
    tp: "write_mem_or_EIO s2 (buf_p (topic m)) (size_s (topic m)) = Some (0, s3)" and
    i: "(if qos_int (qos m) > 0 then write_or_EIO s3 [0, 1] 2 else Some (0, s3)) = Some (0, s4)" and
    pl: "(if size_s (payload m) > 0
          then write_mem_or_EIO s4 (buf_p (payload m)) (size_s (payload m))
          else Some (0, s4)) = Some (0, s5)" and
    e: "self' = s5\<lparr>message_type := CONTROL_PUBLISH\<rparr>"
    by auto
  note H = write_fixed_header_ok [OF h]
  from v have V: "s2 = emit s1 [0, word_of_nat (size_s (topic m))]"
    by (simp add: write_or_EIO_ok)
  note T = write_mem_or_EIO_ok [OF tp]
  from i have I: "s4 = emit s3 (if qos_int (qos m) > 0 then [0x00, 0x01] else [])"
    by (simp add: write_or_EIO_ok split: if_splits)
  have P: "s5 = emit s4 (string_data (payload m))"
  proof (cases "size_s (payload m) > 0")
    case True
    with pl have "write_mem_or_EIO s4 (buf_p (payload m)) (size_s (payload m)) = Some (0, s5)"
      by simp
    from write_mem_or_EIO_ok [OF this] show ?thesis by simp
  next
    case False
    with pl show ?thesis by (simp add: string_data_def split: option.splits)
  qed
  show ?thesis
    using H V T I P e by simp
qed

lemma short_size_prefix: "n \<le> 255 \<Longrightarrow> [0x00, word_of_nat n] = [MSB n, LSB n]"
proof -
  assume n: "n \<le> 255"
  have "drop_bit 8 n = 0" using n by (simp add: drop_bit_eq_div)
  moreover have "n AND 0xff = n"
  proof -
    have "take_bit 8 n = n" using n by (intro take_bit_nat_eq_self) simp
    then have "n AND mask 8 = n" by (simp add: take_bit_eq_mask)
    then show ?thesis by (simp add: mask_eq_exp_minus_1)
  qed
  ultimately show ?thesis by (simp add: MSB_def LSB_def)
qed

lemma publish_packet_layout_short_topic:
  assumes "publish_message self m = Some (0, self')"
    and "size_s (topic m) \<le> 255" and "size_s (payload m) < 268435456"
  shows "sent (transport_out self') =
     sent (transport_out self) @
     fixed_header_bytes MQTT_PUBLISH (push_bit 1 (qos_int (qos m)))
       (size_s (topic m) + 2 + (if qos_int (qos m) > 0 then 2 else 0) + size_s (payload m)) @
     [MSB (size_s (topic m)), LSB (size_s (topic m))] @ string_data (topic m) @
     (if qos_int (qos m) > 0 then [0x00, 0x01] else []) @
     string_data (payload m)"
proof -
  from assms(2) have "size_s (topic m) \<le> 65535" by simp
  from publish_message_ok [OF assms(1) this assms(3)] short_size_prefix [OF assms(2)]
  show ?thesis by simp
qed

lemma replicate_256_take [simp]: "take 256 (replicate 256 x) = replicate 256 x"
  by simp

text \<open>
  C5. A publish request with QoS 0, no payload and a topic of 256 bytes \<open>'a'\<close>:
  \<open>handle_control_publish\<close> writes the fixed header \<open>30 82 02\<close> (remaining length 258),
  then the two bytes \<open>00 00\<close>, then the topic. The big-endian encoding of 256 is
  \<open>01 00\<close>: the handler sets the first length byte to 0 and stores the size in the
  second, which keeps its low eight bits. By \<open>publish_packet_layout_short_topic\<close> the
  packet is as the MQTT layout has it for every topic of at most 255 bytes.
\<close>

theorem publish_topic_256_length_prefix:
  "handle_control_publish
     ((fresh_client [])\<lparr>control_in :=
        [MessagePtr \<lparr>topic = \<lparr>buf_p = Some (replicate 256 0x61), size_s = 256\<rparr>,
                     payload = null_string, qos = mqtt_qos_0_t\<rparr>]\<rparr>) =
     Some (0, (emit (fresh_client [])
                 ([0x30, 0x82, 0x02, 0x00, 0x00] @ replicate 256 0x61))
              \<lparr>message_type := CONTROL_PUBLISH\<rparr>) \<and>
   [MSB 256, LSB 256] = [0x01, 0x00]"
proof -
  let ?m = "\<lparr>topic = \<lparr>buf_p = Some (replicate 256 0x61), size_s = 256\<rparr>,
                     payload = null_string, qos = mqtt_qos_0_t\<rparr>"
  have r: "remaining_length_bytes 258 = [0x82, 0x02]"
    by (simp add: remaining_length_bytes.simps)
  have h: "write_fixed_header (fresh_client []) MQTT_PUBLISH 0 258 =
      Some (0, emit (fresh_client []) [0x30, 0x82, 0x02])"
    by (simp add: write_fixed_header_eq fixed_header_bytes_def r)
  have z: "(256 :: u8) = 0" by simp
  have v: "write_or_EIO (emit (fresh_client []) [0x30, 0x82, 0x02]) [0, 256] 2 =
      Some (0, emit (fresh_client []) [0x30, 0x82, 0x02, 0x00, 0x00])"
    by (simp add: write_or_EIO_eq z)
  have t: "write_mem_or_EIO (emit (fresh_client []) [0x30, 0x82, 0x02, 0x00, 0x00])
             (Some (replicate 256 0x61)) 256 =
      Some (0, emit (fresh_client []) ([0x30, 0x82, 0x02, 0x00, 0x00] @ replicate 256 0x61))"
    by (simp add: write_mem_or_EIO_def deref_def write_or_EIO_eq)
  have pm: "publish_message (fresh_client []) ?m =
      Some (0, (emit (fresh_client []) ([0x30, 0x82, 0x02, 0x00, 0x00] @ replicate 256 0x61))
              \<lparr>message_type := CONTROL_PUBLISH\<rparr>)"
    by (simp add: publish_message_def Let_def size_t_wrap_def null_string_def h v t)
  have same: "(fresh_client [])\<lparr>control_in := []\<rparr> = fresh_client []"
    by (simp add: fresh_client_def mqtt_client_init_def)
  show ?thesis
    by (simp add: handle_control_publish_def same pm MSB_def LSB_def)
qed

section \<open>Writing an MQTT string\<close>

text \<open>
  C7. For a string whose buffer holds the bytes its size announces,
  \<open>write_mqtt_string\<close> returns \<open>-EINVAL\<close> exactly when the size is 0, the buffer
  pointer is null or the size is above 65535, and then writes nothing. Otherwise it
  returns 0 with the two-byte big-endian size and the \<open>size\<close> bytes of the buffer
  written, unless the transport takes fewer than \<open>size + 2\<close> bytes: exactly then it
  returns \<open>-EIO\<close>, with the bytes the transport took written. The two length bytes
  are the size in base 256, most significant first, and \<open>size\<close> bytes of the buffer
  follow them.
\<close>

theorem write_mqtt_string_contract:
  assumes "string_in_bounds s"
  shows
    "((\<exists>self'. write_mqtt_string self s = Some (- EINVAL, self')) \<longleftrightarrow>
        size_s s = 0 \<or> buf_p s = None \<or> size_s s > 65535) \<and>
     ((\<exists>self'. write_mqtt_string self s = Some (- EIO, self')) \<longleftrightarrow>
        \<not> (size_s s = 0 \<or> buf_p s = None \<or> size_s s > 65535) \<and>
        room (transport_out self) < size_s s + 2) \<and>
     write_mqtt_string self s =
       (if size_s s = 0 \<or> buf_p s = None \<or> size_s s > 65535 then Some (- EINVAL, self)
        else if size_s s + 2 \<le> room (transport_out self)
          then Some (0, emit self (mqtt_string_bytes s))
        else Some (- EIO, emit self (take (room (transport_out self)) (mqtt_string_bytes s)))) \<and>
     mqtt_string_bytes s = MSB (size_s s) # LSB (size_s s) # string_data s \<and>
     (if size_s s > 65535 then True
      else 256 * unat (MSB (size_s s)) + unat (LSB (size_s s)) = size_s s \<and>
           (if buf_p s = None then True else length (string_data s) = size_s s))"
proof -
  have "length (string_data s) = size_s s" if "buf_p s \<noteq> None"
    using that assms by (auto simp: string_in_bounds_def string_data_def)
  then show ?thesis
    by (simp add: write_mqtt_string_eq [OF assms] not_le MSB_LSB_big_endian
        mqtt_string_bytes_def string_data_def)
qed

text \<open>The string \<open>a/b\<close> goes out as \<open>00 03 61 2F 62\<close>.\<close>

theorem write_mqtt_string_contract_witness:
  "string_in_bounds \<lparr>buf_p = Some [0x61, 0x2F, 0x62], size_s = 3\<rparr> \<and>
   write_mqtt_string (fresh_client []) \<lparr>buf_p = Some [0x61, 0x2F, 0x62], size_s = 3\<rparr> =
     Some (0, emit (fresh_client []) [0x00, 0x03, 0x61, 0x2F, 0x62])"
proof -
  have b: "string_in_bounds \<lparr>buf_p = Some [0x61, 0x2F, 0x62], size_s = 3\<rparr>"
    by (simp add: string_in_bounds_def)
  from write_mqtt_string_contract [OF b, of "fresh_client []"] b show ?thesis
    by (simp add: mqtt_string_bytes_def MSB_def LSB_def fresh_client_def mqtt_client_init_def)
qed

section \<open>The suback handler\<close>

text \<open>
  C8. With a subscribe in flight, \<open>handle_response_suback\<close> returns 0 exactly when the
  declared size is 3 and the three bytes on the transport input are the packet
  identifier \<open>00 01\<close> and a granted QoS of at most 2; every other case is an error.
  A suback \<open>90 03 00 01 q\<close> with \<open>q > 2\<close> (such as \<open>0x80\<close>) makes
  \<open>read_server_message\<close> return -1 and post -1 on the outbound control channel,
  where the blocked subscribe caller reads it as its result.
\<close>

theorem suback_contract:
  "(message_type self = CONTROL_SUBSCRIBE \<longrightarrow>
      (fst (handle_response_suback self sz) = 0 \<longleftrightarrow>
         sz = 3 \<and> (\<exists>q rest. transport_in self = 0x00 # 0x01 # q # rest \<and> q \<le> 2))) \<and>
   (message_type self = CONTROL_SUBSCRIBE \<and> control_out self = [] \<and>
    transport_in self = 0x90 # 0x03 # 0x00 # 0x01 # q # rest \<and> 2 < q \<longrightarrow>
      (\<exists>self'. read_server_message self = Some (- 1, self') \<and>
               control_routine_reply self' = Some (- 1, self'\<lparr>control_out := []\<rparr>)))"
proof (intro conjI impI)
  assume m: "message_type self = CONTROL_SUBSCRIBE"
  show "fst (handle_response_suback self sz) = 0 \<longleftrightarrow>
         sz = 3 \<and> (\<exists>q rest. transport_in self = 0x00 # 0x01 # q # rest \<and> q \<le> 2)"
  proof (cases "sz = 3 \<and> length (take 3 (transport_in self)) = 3")
    case True
    then obtain a b c r where "transport_in self = a # b # c # r"
      unfolding take3_conv by blast
    then show ?thesis using m True
      by (auto simp: handle_response_suback_def transport_read_def chan_read_def Let_def
          take_Cons' not_less split: if_splits)
  next
    case False
    then show ?thesis using m
      by (auto simp: handle_response_suback_def transport_read_def chan_read_def Let_def)
  qed
next
  assume a: "message_type self = CONTROL_SUBSCRIBE \<and> control_out self = [] \<and>
    transport_in self = 0x90 # 0x03 # 0x00 # 0x01 # q # rest \<and> 2 < q"
  then show "\<exists>self'. read_server_message self = Some (- 1, self') \<and>
               control_routine_reply self' = Some (- 1, self'\<lparr>control_out := []\<rparr>)"
    by (simp add: read_server_message_def read_fixed_header_def handle_response_suback_def
        transport_read_def chan_read_def post_result_def control_routine_reply_def Let_def take_Cons')
qed

text \<open>The granted QoS \<open>0x80\<close> of the spec's scenario.\<close>

theorem suback_contract_witness:
  "message_type ((fresh_client [0x90, 0x03, 0x00, 0x01, 0x80])\<lparr>message_type := CONTROL_SUBSCRIBE\<rparr>)
     = CONTROL_SUBSCRIBE \<and>
   (2 :: u8) < 0x80 \<and>
   (\<exists>self'. read_server_message
              ((fresh_client [0x90, 0x03, 0x00, 0x01, 0x80])\<lparr>message_type := CONTROL_SUBSCRIBE\<rparr>)
              = Some (- 1, self') \<and>
            control_routine_reply self' = Some (- 1, self'\<lparr>control_out := []\<rparr>))"
proof -
  let ?c = "(fresh_client [0x90, 0x03, 0x00, 0x01, 0x80])\<lparr>message_type := CONTROL_SUBSCRIBE\<rparr>"
  have pre: "message_type ?c = CONTROL_SUBSCRIBE \<and> control_out ?c = [] \<and>
      transport_in ?c = 0x90 # 0x03 # 0x00 # 0x01 # 0x80 # [] \<and> (2 :: u8) < 0x80"
    by (simp add: fresh_client_def mqtt_client_init_def)
  from suback_contract [of ?c 3 "0x80" "[]"] pre show ?thesis
    by blast
qed

section \<open>Inbound publish with QoS 1\<close>

lemma handle_publish_qos1_eq:
  assumes qos: "drop_bit 1 flags AND 0x3 = (1::int)"
    and inp: "transport_in self = hi # lo # topic_bytes @ p1 # p2 # rest"
    and len: "length topic_bytes = push_bit 8 (unat hi) OR unat lo"
    and bound: "length topic_bytes \<le> 127"
    and room: "4 \<le> room (transport_out self)"
  shows "handle_publish self sz flags =
     Some (call_on_publish (emit (self\<lparr>transport_in := rest\<rparr>) [0x40, 0x02, p1, p2])
             (topic_bytes @ [0]) (size_t_wrap (int sz - int (length topic_bytes) - 4)))"
proof -
  have hdr: "write_fixed_header c MQTT_PUBACK 0 2 = Some (0, emit c [0x40, 0x02])"
    if "2 \<le> room (transport_out c)" for c
    using that by (simp add: write_fixed_header_eq fixed_header_bytes_def)
  from room have room2: "2 \<le> room (transport_out self) - Suc (Suc 0)" by simp
  show ?thesis
    using qos bound room room2
    by (simp add: handle_publish_def transport_read_def chan_read_def inp len [symmetric]
        Let_def hdr write_or_EIO_eq)
qed

text \<open>
  C9. An inbound publish whose flags carry QoS 1, with a topic of at most 127 bytes and
  a transport that takes the four bytes of the acknowledgement: \<open>handle_publish\<close> reads
  the two-byte topic length, the topic and the two-byte packet identifier, writes the
  puback \<open>40 02\<close> (type 4, flags 0, remaining length 2) followed by the same two
  identifier bytes, and calls on-publish with the topic terminated by a zero byte, the
  transport input positioned after the identifier, and the payload length
  \<open>size - topic.size - 4\<close> as \<open>size_t\<close> computes it (the plain difference when the
  declared size is at least \<open>topic.size + 4\<close>). The handler returns 0 when the callback
  does and -1 otherwise.
\<close>

theorem inbound_publish_qos1:
  assumes "drop_bit 1 flags AND 0x3 = (1::int)"
    and "transport_in self = hi # lo # topic_bytes @ p1 # p2 # rest"
    and "length topic_bytes = push_bit 8 (unat hi) OR unat lo"
    and "length topic_bytes \<le> 127"
    and "4 \<le> room (transport_out self)"
  shows "\<exists>res self'.
     handle_publish self sz flags = Some (res, self') \<and>
     sent (transport_out self') = sent (transport_out self) @ [0x40, 0x02, p1, p2] \<and>
     on_publish_calls self' =
       on_publish_calls self @
         [(topic_bytes @ [0], size_t_wrap (int sz - int (length topic_bytes) - 4))] \<and>
     res = (if fst (on_publish self (topic_bytes @ [0]) rest
                      (size_t_wrap (int sz - int (length topic_bytes) - 4))) \<noteq> 0
            then - 1 else 0) \<and>
     transport_in self' =
       snd (on_publish self (topic_bytes @ [0]) rest
              (size_t_wrap (int sz - int (length topic_bytes) - 4))) \<and>
     (if length topic_bytes + 4 \<le> sz \<and> sz < 2 ^ 32
      then size_t_wrap (int sz - int (length topic_bytes) - 4) = sz - length topic_bytes - 4
      else True)"
proof -
  have "size_t_wrap (int sz - int (length topic_bytes) - 4) = sz - length topic_bytes - 4"
    if "length topic_bytes + 4 \<le> sz" "sz < 2 ^ 32"
    using that by (subst size_t_wrap_id) auto
  then show ?thesis
    unfolding handle_publish_qos1_eq [OF assms]
    by (auto simp: call_on_publish_def emit_def split: prod.splits)
qed

text \<open>
  The frame \<open>32 09 00 03 'a' '/' 'b' 00 05 'h' 'i'\<close>, after its fixed header is read:
  the puback is \<open>40 02 00 05\<close> and the callback gets \<open>a/b\<close> and payload length 2.
\<close>

theorem inbound_publish_qos1_witness:
  "drop_bit 1 (2::int) AND 0x3 = 1 \<and>
   (\<exists>self'.
      handle_publish (fresh_client [0x00, 0x03, 0x61, 0x2F, 0x62, 0x00, 0x05, 0x68, 0x69]) 9 2 =
        Some (0, self') \<and>
      sent (transport_out self') = [0x40, 0x02, 0x00, 0x05] \<and>
      on_publish_calls self' = [([0x61, 0x2F, 0x62, 0x00], 2)] \<and>
      transport_in self' = [])"
proof -
  let ?c = "fresh_client [0x00, 0x03, 0x61, 0x2F, 0x62, 0x00, 0x05, 0x68, 0x69]"
  have q: "drop_bit 1 (2::int) AND 0x3 = 1" by simp
  have i: "transport_in ?c = 0x00 # 0x03 # [0x61, 0x2F, 0x62] @ 0x00 # 0x05 # [0x68, 0x69]"
    by (simp add: fresh_client_def mqtt_client_init_def)
  have l: "length [0x61, 0x2F, 0x62 :: u8] = push_bit 8 (unat (0x00 :: u8)) OR unat (0x03 :: u8)"
    by simp
  have b: "length [0x61, 0x2F, 0x62 :: u8] \<le> 127" by simp
  have r: "4 \<le> room (transport_out ?c)"
    by (simp add: fresh_client_def mqtt_client_init_def)
  from inbound_publish_qos1 [OF q i l b r, of 9] q show ?thesis
    by (auto simp: fresh_client_def mqtt_client_init_def drain_payload_def size_t_wrap_def)
qed

text \<open>
  The same body under a declared size of 7 (the spec's fifth scenario writes the frame
  as \<open>32 07 ...\<close>): the payload length handed to the callback is \<open>7 - 3 - 4 = 0\<close>, and
  the two payload bytes stay on the transport input.
\<close>

lemma inbound_publish_declared_size_7:
  "\<exists>self'.
      handle_publish (fresh_client [0x00, 0x03, 0x61, 0x2F, 0x62, 0x00, 0x05, 0x68, 0x69]) 7 2 =
        Some (0, self') \<and>
      sent (transport_out self') = [0x40, 0x02, 0x00, 0x05] \<and>
      on_publish_calls self' = [([0x61, 0x2F, 0x62, 0x00], 0)] \<and>
      transport_in self' = [0x68, 0x69]"
proof -
  let ?c = "fresh_client [0x00, 0x03, 0x61, 0x2F, 0x62, 0x00, 0x05, 0x68, 0x69]"
  have "handle_publish ?c 7 2 =
     Some (call_on_publish (emit (?c\<lparr>transport_in := [0x68, 0x69]\<rparr>) [0x40, 0x02, 0x00, 0x05])
             ([0x61, 0x2F, 0x62] @ [0]) (size_t_wrap (int 7 - int (length [0x61, 0x2F, 0x62 :: u8]) - 4)))"
    by (rule handle_publish_qos1_eq [where hi = 0 and lo = 3])
       (simp_all add: fresh_client_def mqtt_client_init_def)
  then show ?thesis
    by (simp add: call_on_publish_def emit_def fresh_client_def mqtt_client_init_def
        drain_payload_def size_t_wrap_def)
qed

section \<open>Acknowledgements that match no request\<close>

text \<open>
  C10. Each of the five acknowledgement handlers tests the in-flight type first. When it
  is not the one the acknowledgement answers, the handler returns -1 and the client is
  exactly as it was: nothing was read from the transport input, so the bytes of the
  packet body are still there, and the in-flight type is unchanged.
\<close>

theorem ack_mismatch_untouched:
  "(message_type self \<noteq> CONTROL_CONNECT \<longrightarrow> handle_response_connack self sz = (- 1, self)) \<and>
   (message_type self \<noteq> CONTROL_PUBLISH \<longrightarrow> handle_response_puback self sz = (- 1, self)) \<and>
   (message_type self \<noteq> CONTROL_SUBSCRIBE \<longrightarrow> handle_response_suback self sz = (- 1, self)) \<and>
   (message_type self \<noteq> CONTROL_UNSUBSCRIBE \<longrightarrow> handle_response_unsuback self sz = (- 1, self)) \<and>
   (message_type self \<noteq> CONTROL_PING \<longrightarrow> handle_response_ping self sz = (- 1, self))"
  by (simp add: handle_response_connack_def handle_response_puback_def
      handle_response_suback_def handle_response_unsuback_def handle_response_ping_def)

text \<open>
  With no request in flight, a puback body \<open>00 01\<close> stays on the transport input.
\<close>

theorem ack_mismatch_untouched_witness:
  "message_type (fresh_client [0x00, 0x01]) \<noteq> CONTROL_PUBLISH \<and>
   fst (handle_response_puback (fresh_client [0x00, 0x01]) 2) = - 1 \<and>
   transport_in (snd (handle_response_puback (fresh_client [0x00, 0x01]) 2)) = [0x00, 0x01] \<and>
   message_type (snd (handle_response_puback (fresh_client [0x00, 0x01]) 2)) = CONTROL_NONE"
proof -
  have idle: "message_type (fresh_client [0x00, 0x01]) \<noteq> CONTROL_PUBLISH"
    by (simp add: fresh_client_def mqtt_client_init_def)
  from ack_mismatch_untouched [of "fresh_client [0x00, 0x01]" 2] idle
  have "handle_response_puback (fresh_client [0x00, 0x01]) 2 = (- 1, fresh_client [0x00, 0x01])"
    by blast
  then show ?thesis
    by (simp add: fresh_client_def mqtt_client_init_def)
qed

end
